theory Spec2Isabelle
  imports Complex_Main "HOL-Library.AList"
begin

section \<open>Python values, errors and dictionaries\<close>

text \<open>
  The modules \<^verbatim>\<open>gaspy/mongo.py\<close> and \<^verbatim>\<open>gaspy/defaults.py\<close> build and read Mongo
  documents: nested Python dictionaries of JSON values and \<^verbatim>\<open>datetime\<close> objects.
  Python floats are idealised as \<^typ>\<open>real\<close>; no statement below depends on rounding.
  A dictionary is an association list in insertion order, read through \<^const>\<open>map_of\<close>
  and written through \<^const>\<open>AList.update\<close>, which keeps a key's place when it is
  stored again, as an \<^verbatim>\<open>OrderedDict\<close> does.
\<close>

datatype pyval =
    PNone
  | PBool bool
  | PInt int
  | PFloat real
  | PStr string
  | PList "pyval list"
  | PDict "(string \<times> pyval) list"
  | PDatetime nat

type_synonym pydict = "(string \<times> pyval) list"

text \<open>
  The exceptions that the modelled code can raise or see. Python derives
  \<^verbatim>\<open>NotImplementedError\<close> from \<^verbatim>\<open>RuntimeError\<close>, so an \<^verbatim>\<open>except RuntimeError\<close>
  clause catches both. \<open>LibraryError\<close> stands for any other exception that a
  collaborator library raises, by its name. \<open>UnsupportedConstraintKind\<close> is the exception
  that the specification names for the decoder; nothing in the modelled code raises it.
\<close>

datatype error =
    RuntimeError
  | NotImplementedError
  | KeyError string
  | IndexError
  | ValueError
  | TypeError
  | AttributeError
  | UnsupportedConstraintKind pyval
  | LibraryError string

fun isinstance_RuntimeError :: "error \<Rightarrow> bool" where
  "isinstance_RuntimeError RuntimeError = True"
| "isinstance_RuntimeError NotImplementedError = True"
| "isinstance_RuntimeError _ = False"

text \<open>Sequencing of fallible steps: the first exception ends the computation.\<close>

definition bind :: "error + 'a \<Rightarrow> ('a \<Rightarrow> error + 'b) \<Rightarrow> error + 'b" where
  "bind m f = (case m of Inl e \<Rightarrow> Inl e | Inr x \<Rightarrow> f x)"

text \<open>A list comprehension whose element expression can raise.\<close>

fun traverse :: "('a \<Rightarrow> error + 'b) \<Rightarrow> 'a list \<Rightarrow> error + 'b list" where
  "traverse f [] = Inr []"
| "traverse f (x # xs) =
     (case f x of
        Inl e \<Rightarrow> Inl e
      | Inr y \<Rightarrow> (case traverse f xs of Inl e \<Rightarrow> Inl e | Inr ys \<Rightarrow> Inr (y # ys)))"

text \<open>\<^verbatim>\<open>d[k]\<close>: a missing key raises KeyError, subscripting a non-dictionary by a
  string raises TypeError.\<close>

fun getitem :: "pyval \<Rightarrow> string \<Rightarrow> error + pyval" where
  "getitem (PDict kvs) k = (case map_of kvs k of None \<Rightarrow> Inl (KeyError k) | Some v \<Rightarrow> Inr v)"
| "getitem _ k = Inl TypeError"

text \<open>\<^verbatim>\<open>d.get(k, None)\<close> on a dictionary.\<close>

definition dict_get :: "pydict \<Rightarrow> string \<Rightarrow> pyval" where
  "dict_get kvs k = (case map_of kvs k of None \<Rightarrow> PNone | Some v \<Rightarrow> v)"

text \<open>\<^verbatim>\<open>d.update(other)\<close>: the entries of \<open>other\<close> are stored one after the other.\<close>

definition dict_update :: "pydict \<Rightarrow> pydict \<Rightarrow> pydict" where
  "dict_update d other = fold (\<lambda>(k, v). AList.update k v) other d"

definition keys :: "pydict \<Rightarrow> string list" where
  "keys d = map fst d"

section \<open>Atoms, structures and calculators\<close>

type_synonym vec3 = "real \<times> real \<times> real"
type_synonym mat3 = "vec3 \<times> vec3 \<times> vec3"

definition zero3 :: vec3 where
  "zero3 = (0, 0, 0)"

text \<open>
  One atom of an \<^verbatim>\<open>ase.Atoms\<close> object. Its \<^verbatim>\<open>index\<close> is its place in the sequence
  (iterating over the structure yields \<^verbatim>\<open>Atom(atoms=self, index=i)\<close>), so it is not a
  stored field. Element symbols are kept as strings.
\<close>

record atom =
  symbol :: string
  position :: vec3
  tag :: int
  charge :: real
  momentum :: vec3
  magmom :: real

text \<open>
  A calculator driving an external engine, seen through the calls the code makes:
  \<^verbatim>\<open>todict()\<close> (AttributeError when the class has none), \<^verbatim>\<open>__module__\<close>,
  \<^verbatim>\<open>__class__.__name__\<close>, \<^verbatim>\<open>calculation_required(atoms, properties)\<close>, and the
  values its getters return for the owning structure. The magnetic moments may be
  unavailable, which the getter reports by an exception.
\<close>

record engine =
  ext_todict :: "error + pydict"
  ext_module :: string
  ext_class :: string
  ext_calculation_required :: "string list \<Rightarrow> bool"
  ext_potential_energy :: real
  ext_forces :: "vec3 list"
  ext_magnetic_moments :: "error + real list"

text \<open>
  \<^verbatim>\<open>SinglePointCalculator(energy=, forces=, stress=, atoms=)\<close> stores the results it is
  given and skips those that are \<^verbatim>\<open>None\<close>.
\<close>

datatype calculator =
    SinglePointCalculator (sp_energy: "real option") (sp_forces: "vec3 list option")
      (sp_stress: "pyval option")
  | Engine engine

record 'c ase_atoms =
  atoms :: "atom list"
  cell :: mat3
  pbc :: "bool \<times> bool \<times> bool"
  info :: pydict
  constraints :: "'c list"
  calc :: "calculator option"

text \<open>\<^verbatim>\<open>Atoms(symbols, positions=...)\<close> with every other argument at its default.\<close>

definition new_atom :: "string \<Rightarrow> vec3 \<Rightarrow> atom" where
  "new_atom s p =
     \<lparr>symbol = s, position = p, tag = 0, charge = 0, momentum = zero3, magmom = 0\<rparr>"

definition Atoms :: "(string \<times> vec3) list \<Rightarrow> 'c ase_atoms" where
  "Atoms sps =
     \<lparr>atoms = map (\<lambda>(s, p). new_atom s p) sps,
      cell = (zero3, zero3, zero3),
      pbc = (False, False, False),
      info = [],
      constraints = [],
      calc = None\<rparr>"

text \<open>\<^verbatim>\<open>atoms.set_constraint(c)\<close> with a single constraint replaces the constraint list.\<close>

definition set_constraint :: "'c \<Rightarrow> 'c ase_atoms \<Rightarrow> 'c ase_atoms" where
  "set_constraint c s = s\<lparr>constraints := [c]\<rparr>"

section \<open>The collaborator libraries\<close>

text \<open>
  What \<^verbatim>\<open>mongo.py\<close> calls in \<^verbatim>\<open>ase\<close>, \<^verbatim>\<open>spglib\<close> and \<^verbatim>\<open>numpy\<close>, as
  parameters: the statements below hold for every choice of them. The type \<open>'c\<close> is
  the type of constraint objects.
  \<^item> \<open>todict\<close> is \<^verbatim>\<open>c.todict()\<close> and \<open>dict2constraint\<close> the factory
    \<^verbatim>\<open>ase.constraints.dict2constraint\<close>, which raises on a dictionary it does not
    accept;
  \<^item> \<open>adjust_forces\<close> is \<^verbatim>\<open>c.adjust_forces(atoms, forces)\<close>, a function of the
    constraint, the geometry (atoms, cell, pbc) and the forces;
  \<^item> \<open>get_masses\<close>, \<open>get_atomic_numbers\<close>, \<open>get_scaled_positions\<close> and
    \<open>get_volume\<close> are the methods of \<^verbatim>\<open>ase.Atoms\<close> of these names, functions of
    the atoms, of the geometry and of the cell; the two that solve a linear system or
    call into \<^verbatim>\<open>spglib\<close> may raise;
  \<^item> \<open>get_spacegroup\<close> is \<^verbatim>\<open>spglib.get_spacegroup\<close> and \<open>linalg_det\<close> is
    \<^verbatim>\<open>numpy.linalg.det\<close>.
\<close>

record 'c library =
  todict :: "'c \<Rightarrow> pyval"
  dict2constraint :: "pyval \<Rightarrow> error + 'c"
  adjust_forces :: "'c \<Rightarrow> atom list \<times> mat3 \<times> (bool \<times> bool \<times> bool) \<Rightarrow> vec3 list \<Rightarrow> vec3 list"
  get_masses :: "atom list \<Rightarrow> real list"
  get_atomic_numbers :: "atom list \<Rightarrow> int list"
  get_scaled_positions :: "atom list \<times> mat3 \<times> (bool \<times> bool \<times> bool) \<Rightarrow> error + vec3 list"
  get_volume :: "mat3 \<Rightarrow> real"
  get_spacegroup :: "mat3 \<times> vec3 list \<times> int list \<Rightarrow> error + pyval"
  linalg_det :: "mat3 \<Rightarrow> real"

section \<open>The methods of a structure that the encoder calls\<close>

text \<open>
  \<^verbatim>\<open>calculator.calculation_required(atoms, properties)\<close>. A single-point calculator
  attached to the structure it was built for requires a calculation exactly for the
  properties it was not given.
\<close>

fun sp_has :: "calculator \<Rightarrow> string \<Rightarrow> bool" where
  "sp_has (SinglePointCalculator e f st) name =
     (name = ''energy'' \<and> e \<noteq> None \<or> name = ''forces'' \<and> f \<noteq> None \<or>
      name = ''stress'' \<and> st \<noteq> None)"
| "sp_has (Engine x) name = False"

fun calculation_required :: "calculator \<Rightarrow> string list \<Rightarrow> bool" where
  "calculation_required (Engine x) properties = ext_calculation_required x properties"
| "calculation_required c properties = (\<not> list_all (sp_has c) properties)"

text \<open>
  The getters of a calculator. A single-point calculator raises
  \<^verbatim>\<open>PropertyNotImplementedError\<close>, a \<^verbatim>\<open>NotImplementedError\<close>, for a property it does
  not hold; it never holds magnetic moments, since the decoder gives it none.
\<close>

fun calc_get_potential_energy :: "calculator \<Rightarrow> error + real" where
  "calc_get_potential_energy (SinglePointCalculator e f st) =
     (case e of None \<Rightarrow> Inl NotImplementedError | Some v \<Rightarrow> Inr v)"
| "calc_get_potential_energy (Engine x) = Inr (ext_potential_energy x)"

fun calc_get_forces :: "calculator \<Rightarrow> error + vec3 list" where
  "calc_get_forces (SinglePointCalculator e f st) =
     (case f of None \<Rightarrow> Inl NotImplementedError | Some v \<Rightarrow> Inr v)"
| "calc_get_forces (Engine x) = Inr (ext_forces x)"

fun calc_get_magnetic_moments :: "calculator \<Rightarrow> error + real list" where
  "calc_get_magnetic_moments (SinglePointCalculator e f st) = Inl NotImplementedError"
| "calc_get_magnetic_moments (Engine x) = ext_magnetic_moments x"

text \<open>
  \<^verbatim>\<open>atoms.get_magnetic_moments()\<close>, \<^verbatim>\<open>atoms.get_potential_energy(apply_constraint=False)\<close>
  and \<^verbatim>\<open>atoms.get_forces(apply_constraint=...)\<close>: without a calculator they raise
  RuntimeError; otherwise they ask the calculator, and \<^verbatim>\<open>get_forces\<close> then lets every
  constraint adjust the forces when \<^verbatim>\<open>apply_constraint\<close> is true.
\<close>

definition geometry :: "'c ase_atoms \<Rightarrow> atom list \<times> mat3 \<times> (bool \<times> bool \<times> bool)" where
  "geometry s = (atoms s, cell s, pbc s)"

definition get_magnetic_moments :: "'c ase_atoms \<Rightarrow> error + real list" where
  "get_magnetic_moments s =
     (case calc s of None \<Rightarrow> Inl RuntimeError | Some c \<Rightarrow> calc_get_magnetic_moments c)"

definition get_potential_energy_unconstrained :: "'c ase_atoms \<Rightarrow> error + real" where
  "get_potential_energy_unconstrained s =
     (case calc s of None \<Rightarrow> Inl RuntimeError | Some c \<Rightarrow> calc_get_potential_energy c)"

definition constrained_forces :: "'c library \<Rightarrow> 'c ase_atoms \<Rightarrow> vec3 list \<Rightarrow> vec3 list" where
  "constrained_forces L s forces =
     fold (\<lambda>c fs. adjust_forces L c (geometry s) fs) (constraints s) forces"

definition get_forces :: "'c library \<Rightarrow> 'c ase_atoms \<Rightarrow> bool \<Rightarrow> error + vec3 list" where
  "get_forces L s apply_constraint =
     (case calc s of
        None \<Rightarrow> Inl RuntimeError
      | Some c \<Rightarrow>
          bind (calc_get_forces c) (\<lambda>forces.
            Inr (if apply_constraint then constrained_forces L s forces else forces)))"

section \<open>JSON forms\<close>

text \<open>
  \<^verbatim>\<open>json.loads(encode(x))\<close> with the encoder of \<^verbatim>\<open>ase.io.jsonio\<close>: a vector becomes the
  list of its components, a numpy scalar a number, and the cell a mapping whose entry
  \<^verbatim>\<open>'array'\<close> holds the three lattice vectors, which is where the decoder reads them.
  The values of the model are already in the form that \<^verbatim>\<open>json.loads\<close> returns, so on
  them the round trip through JSON text changes nothing.
\<close>

definition json_loads_encode :: "pyval \<Rightarrow> pyval" where
  "json_loads_encode v = v"

definition vec3_json :: "vec3 \<Rightarrow> pyval" where
  "vec3_json v = (case v of (x, y, z) \<Rightarrow> PList [PFloat x, PFloat y, PFloat z])"

definition mat3_json :: "mat3 \<Rightarrow> pyval" where
  "mat3_json m = (case m of (a, b, c) \<Rightarrow> PList [vec3_json a, vec3_json b, vec3_json c])"

definition cell_json :: "mat3 \<Rightarrow> pyval" where
  "cell_json m = PDict [(''array'', mat3_json m)]"

definition pbc_json :: "bool \<times> bool \<times> bool \<Rightarrow> pyval" where
  "pbc_json p = (case p of (a, b, c) \<Rightarrow> PList [PBool a, PBool b, PBool c])"

definition forces_tolist :: "vec3 list \<Rightarrow> pyval" where
  "forces_tolist fs = PList (map vec3_json fs)"

section \<open>mongo.py: the encoder\<close>

text \<open>One entry of the \<^verbatim>\<open>atoms\<close> list: the atom at index \<open>i\<close> with magnetic moment \<open>m\<close>.\<close>

definition atom_dict :: "nat \<Rightarrow> atom \<Rightarrow> real \<Rightarrow> pyval" where
  "atom_dict i a m =
     PDict [(''symbol'', PStr (symbol a)),
            (''position'', json_loads_encode (vec3_json (position a))),
            (''tag'', PInt (tag a)),
            (''index'', PInt (int i)),
            (''charge'', PFloat (charge a)),
            (''momentum'', json_loads_encode (vec3_json (momentum a))),
            (''magmom'', PFloat m)]"

text \<open>The comprehension of the \<^verbatim>\<open>try\<close> block; \<^verbatim>\<open>magmoms[i]\<close> raises IndexError beyond
  the end of the array.\<close>

definition atom_dicts_computed :: "atom list \<Rightarrow> real list \<Rightarrow> error + pyval list" where
  "atom_dicts_computed as magmoms =
     traverse (\<lambda>(i, a). if i < length magmoms then Inr (atom_dict i a (magmoms ! i))
                         else Inl IndexError)
       (enumerate 0 as)"

text \<open>The comprehension of the \<^verbatim>\<open>except\<close> block.\<close>

definition atom_dicts_static :: "atom list \<Rightarrow> pyval list" where
  "atom_dicts_static as = map (\<lambda>(i, a). atom_dict i a (magmom a)) (enumerate 0 as)"

definition atoms_dict_init :: "'c library \<Rightarrow> 'c ase_atoms \<Rightarrow> pyval list \<Rightarrow> pydict" where
  "atoms_dict_init L s ads =
     [(''atoms'', PList ads),
      (''cell'', cell_json (cell s)),
      (''pbc'', pbc_json (pbc s)),
      (''info'', PDict (info s)),
      (''constraints'', PList (map (todict L) (constraints s)))]"

definition transpose3 :: "mat3 \<Rightarrow> mat3" where
  "transpose3 m =
     (case m of ((a, b, c), (d, e, f), (g, h, i)) \<Rightarrow> ((a, d, g), (b, e, h), (c, f, i)))"

definition make_spglib_cell_from_atoms ::
  "'c library \<Rightarrow> 'c ase_atoms \<Rightarrow> error + mat3 \<times> vec3 list \<times> int list" where
  "make_spglib_cell_from_atoms L s =
     (let lattice = transpose3 (cell s) in
      bind (get_scaled_positions L (geometry s)) (\<lambda>positions.
        let numbers = get_atomic_numbers L (atoms s) in
        Inr (lattice, positions, numbers)))"

text \<open>
  \<^verbatim>\<open>_make_atoms_dict\<close>, first its \<^verbatim>\<open>try\<close> statement (\<open>atoms_dict_try\<close>), then
  the whole. The \<^verbatim>\<open>except RuntimeError\<close> clause takes over when the
  \<^verbatim>\<open>try\<close> block raises a RuntimeError; any other exception leaves the function.
  \<^verbatim>\<open>atoms.get_cell()\<close> returns an array, never \<^verbatim>\<open>None\<close>, so the test for the volume
  is the test on the determinant. \<^verbatim>\<open>list(set(syms))\<close> has no specified order; the
  model lists each symbol once.
\<close>

definition atoms_dict_try :: "'c library \<Rightarrow> 'c ase_atoms \<Rightarrow> error + pydict" where
  "atoms_dict_try L s =
     (case bind (get_magnetic_moments s) (\<lambda>magmoms.
             bind (atom_dicts_computed (atoms s) magmoms) (\<lambda>ads.
               Inr (atoms_dict_init L s ads))) of
        Inr d \<Rightarrow> Inr d
      | Inl e \<Rightarrow>
          if isinstance_RuntimeError e
          then Inr (atoms_dict_init L s (atom_dicts_static (atoms s)))
          else Inl e)"

definition make_atoms_dict :: "'c library \<Rightarrow> 'c ase_atoms \<Rightarrow> error + pydict" where
  "make_atoms_dict L s =
     bind (atoms_dict_try L s) (\<lambda>atoms_dict.
     let atoms_dict = AList.update ''natoms'' (PInt (int (length (atoms s)))) atoms_dict;
         cell = cell s;
         atoms_dict = AList.update ''mass'' (PFloat (sum_list (get_masses L (atoms s))))
                        atoms_dict;
         syms = map symbol (atoms s)
     in
     bind (make_spglib_cell_from_atoms L s) (\<lambda>spglib_cell.
     bind (get_spacegroup L spglib_cell) (\<lambda>spacegroup.
     let atoms_dict = AList.update ''spacegroup'' spacegroup atoms_dict;
         atoms_dict = AList.update ''chemical_symbols'' (PList (map PStr (remdups syms)))
                        atoms_dict;
         atoms_dict = AList.update ''symbol_counts''
                        (PDict (map (\<lambda>sym. (sym, PInt (int (count_list syms sym))))
                                  (remdups syms)))
                        atoms_dict;
         atoms_dict = (if linalg_det L cell > 0
                       then AList.update ''volume'' (PFloat (get_volume L cell)) atoms_dict
                       else atoms_dict)
     in
     case json_loads_encode (PDict atoms_dict) of
       PDict d \<Rightarrow> Inr d
     | _ \<Rightarrow> Inl TypeError)))"

text \<open>\<^verbatim>\<open>int(x)\<close> for the k-points: a float is truncated towards zero. Numeric strings are
  outside the model (k-points are numbers) and count as ill-formed.\<close>

fun py_int :: "pyval \<Rightarrow> error + int" where
  "py_int (PInt i) = Inr i"
| "py_int (PBool b) = Inr (if b then 1 else 0)"
| "py_int (PFloat x) = Inr (if 0 \<le> x then \<lfloor>x\<rfloor> else \<lceil>x\<rceil>)"
| "py_int (PStr s) = Inl ValueError"
| "py_int _ = Inl TypeError"

fun py_iter :: "pyval \<Rightarrow> error + pyval list" where
  "py_iter (PList xs) = Inr xs"
| "py_iter (PDict kvs) = Inr (map (PStr \<circ> fst) kvs)"
| "py_iter (PStr s) = Inr (map (\<lambda>c. PStr [c]) s)"
| "py_iter _ = Inl TypeError"

text \<open>A single-point calculator has no settings: its \<^verbatim>\<open>todict()\<close> is empty.\<close>

definition calc_todict :: "calculator \<Rightarrow> error + pydict" where
  "calc_todict c = (case c of Engine x \<Rightarrow> ext_todict x | _ \<Rightarrow> Inr [])"

definition calc_module :: "calculator \<Rightarrow> string" where
  "calc_module c = (case c of Engine x \<Rightarrow> ext_module x | _ \<Rightarrow> ''ase.calculators.singlepoint'')"

definition calc_class :: "calculator \<Rightarrow> string" where
  "calc_class c = (case c of Engine x \<Rightarrow> ext_class x | _ \<Rightarrow> ''SinglePointCalculator'')"

text \<open>
  \<^verbatim>\<open>_make_calculator_dict\<close>. The inner \<^verbatim>\<open>try\<close> passes over a missing \<^verbatim>\<open>'kpts'\<close>;
  the outer one replaces the settings by an empty dictionary on an AttributeError.
\<close>

definition make_calculator_dict :: "'c library \<Rightarrow> 'c ase_atoms \<Rightarrow> error + pydict" where
  "make_calculator_dict L s =
     (case calc s of
        None \<Rightarrow> Inr []
      | Some calculator \<Rightarrow>
          bind (case bind (calc_todict calculator) (\<lambda>d.
                       case map_of d ''kpts'' of
                         None \<Rightarrow> Inr d
                       | Some kpts \<Rightarrow>
                           bind (py_iter kpts) (\<lambda>ks.
                           bind (traverse py_int ks) (\<lambda>is.
                             Inr (AList.update ''kpts'' (PList (map PInt is)) d)))) of
                  Inr d \<Rightarrow> Inr d
                | Inl e \<Rightarrow> if e = AttributeError then Inr [] else Inl e) (\<lambda>d.
          let d = AList.update ''module'' (PStr (calc_module calculator)) d;
              d = AList.update ''class'' (PStr (calc_class calculator)) d
          in Inr [(''calculator'', PDict d)]))"

text \<open>\<^verbatim>\<open>max(xs)\<close> raises ValueError on an empty sequence.\<close>

fun py_max :: "real list \<Rightarrow> error + real" where
  "py_max [] = Inl ValueError"
| "py_max (x # xs) = Inr (fold max xs x)"

definition flatten :: "vec3 list \<Rightarrow> real list" where
  "flatten fs = concat (map (\<lambda>(x, y, z). [x, y, z]) fs)"

text \<open>
  \<^verbatim>\<open>_make_results_dict\<close>. The first component of the result lists, in order, the
  properties that the function reads through a getter of the calculator; a getter
  launches a computation exactly when the calculator requires one for that property.
\<close>

definition make_results_dict ::
  "'c library \<Rightarrow> 'c ase_atoms \<Rightarrow> string list \<times> (error + pydict)" where
  "make_results_dict L s =
     (let results_dict = [] in
      case calc s of
        None \<Rightarrow> ([], Inr results_dict)
      | Some calculator \<Rightarrow>
          (case (if \<not> calculation_required calculator [''energy'']
                 then ([''energy''],
                       bind (get_potential_energy_unconstrained s) (\<lambda>energy.
                         Inr (AList.update ''energy'' (PFloat energy) results_dict)))
                 else ([], Inr results_dict)) of
             (reads, Inl e) \<Rightarrow> (reads, Inl e)
           | (reads, Inr results_dict) \<Rightarrow>
               if \<not> calculation_required calculator [''forces'']
               then (case get_forces L s False of
                       Inl e \<Rightarrow> (reads @ [''forces''], Inl e)
                     | Inr forces \<Rightarrow>
                         let results_dict =
                               AList.update ''forces'' (forces_tolist forces) results_dict
                         in (reads @ [''forces'', ''forces''],
                             bind (get_forces L s True) (\<lambda>constrained.
                             bind (py_max (map abs (flatten constrained))) (\<lambda>fmax.
                               Inr (AList.update ''fmax'' (PFloat fmax) results_dict)))))
               else (reads, Inr results_dict)))"

text \<open>
  The single-point calculator that holds what the calculator of a structure holds
  without further calculation: the energy and the forces for which no calculation is
  required, and no stress.
\<close>

definition held_energy :: "'c ase_atoms \<Rightarrow> real option" where
  "held_energy s =
     (case calc s of
        None \<Rightarrow> None
      | Some c \<Rightarrow>
          if calculation_required c [''energy''] then None
          else (case calc_get_potential_energy c of Inr e \<Rightarrow> Some e | Inl x \<Rightarrow> None))"

definition held_forces :: "'c ase_atoms \<Rightarrow> vec3 list option" where
  "held_forces s =
     (case calc s of
        None \<Rightarrow> None
      | Some c \<Rightarrow>
          if calculation_required c [''forces''] then None
          else (case calc_get_forces c of Inr f \<Rightarrow> Some f | Inl x \<Rightarrow> None))"

definition held_results :: "'c ase_atoms \<Rightarrow> calculator" where
  "held_results s = SinglePointCalculator (held_energy s) (held_forces s) None"

text \<open>
  The process environment and the clock: \<^verbatim>\<open>os.getenv('USER')\<close> is a string or
  \<^verbatim>\<open>None\<close>; every call of \<^verbatim>\<open>datetime.datetime.utcnow()\<close> takes the next reading of
  the clock.
\<close>

record world =
  env_user :: "string option"
  clock :: "nat \<Rightarrow> nat"
  ticks :: nat

definition getenv_USER :: "world \<Rightarrow> pyval" where
  "getenv_USER w = (case env_user w of None \<Rightarrow> PNone | Some u \<Rightarrow> PStr u)"

definition utcnow :: "world \<Rightarrow> pyval \<times> world" where
  "utcnow w = (PDatetime (clock w (ticks w)), w\<lparr>ticks := ticks w + 1\<rparr>)"

text \<open>\<^verbatim>\<open>make_doc_from_atoms(atoms, **kwargs)\<close>: the document and the world after the
  two readings of the clock.\<close>

definition make_doc_from_atoms ::
  "'c library \<Rightarrow> world \<Rightarrow> 'c ase_atoms \<Rightarrow> pydict \<Rightarrow> error + pydict \<times> world" where
  "make_doc_from_atoms L w s kwargs =
     (let doc = [] in
      bind (make_atoms_dict L s) (\<lambda>atoms_dict.
      bind (make_calculator_dict L s) (\<lambda>calc_dict.
      bind (snd (make_results_dict L s)) (\<lambda>results_dict.
      let doc = dict_update doc [(''atoms'', PDict atoms_dict)];
          doc = dict_update doc [(''calc'', PDict calc_dict)];
          doc = dict_update doc [(''results'', PDict results_dict)];
          doc = AList.update ''user'' (getenv_USER w) doc;
          (now, w) = utcnow w;
          doc = AList.update ''ctime'' now doc;
          (now, w) = utcnow w;
          doc = AList.update ''mtime'' now doc;
          doc = dict_update doc kwargs
      in Inr (doc, w)))))"

section \<open>mongo.py: the decoder\<close>

text \<open>
  The constructors \<^verbatim>\<open>Atom\<close>, \<^verbatim>\<open>Atoms\<close> and \<^verbatim>\<open>SinglePointCalculator\<close> of \<^verbatim>\<open>ase\<close>
  turn the values of the document into arrays. The model is typed: a value of the form
  that the encoder writes is read back as it is (an integer is accepted for a float),
  and any other value is rejected with ValueError. What the library makes of such other
  values is outside the model; the statements below do not depend on it.
\<close>

fun as_float :: "pyval \<Rightarrow> error + real" where
  "as_float (PFloat x) = Inr x"
| "as_float (PInt i) = Inr (real_of_int i)"
| "as_float _ = Inl ValueError"

fun as_int :: "pyval \<Rightarrow> error + int" where
  "as_int (PInt i) = Inr i"
| "as_int _ = Inl ValueError"

fun as_str :: "pyval \<Rightarrow> error + string" where
  "as_str (PStr s) = Inr s"
| "as_str _ = Inl ValueError"

fun as_bool :: "pyval \<Rightarrow> error + bool" where
  "as_bool (PBool b) = Inr b"
| "as_bool _ = Inl ValueError"

fun as_vec3 :: "pyval \<Rightarrow> error + vec3" where
  "as_vec3 (PList [x, y, z]) =
     bind (as_float x) (\<lambda>a. bind (as_float y) (\<lambda>b. bind (as_float z) (\<lambda>c. Inr (a, b, c))))"
| "as_vec3 _ = Inl ValueError"

fun as_mat3 :: "pyval \<Rightarrow> error + mat3" where
  "as_mat3 (PList [x, y, z]) =
     bind (as_vec3 x) (\<lambda>a. bind (as_vec3 y) (\<lambda>b. bind (as_vec3 z) (\<lambda>c. Inr (a, b, c))))"
| "as_mat3 _ = Inl ValueError"

fun as_pbc :: "pyval \<Rightarrow> error + bool \<times> bool \<times> bool" where
  "as_pbc (PList [x, y, z]) =
     bind (as_bool x) (\<lambda>a. bind (as_bool y) (\<lambda>b. bind (as_bool z) (\<lambda>c. Inr (a, b, c))))"
| "as_pbc _ = Inl ValueError"

fun as_info :: "pyval \<Rightarrow> error + pydict" where
  "as_info (PDict d) = Inr d"
| "as_info PNone = Inr []"
| "as_info _ = Inl ValueError"

fun as_forces :: "pyval \<Rightarrow> error + vec3 list" where
  "as_forces (PList xs) = traverse as_vec3 xs"
| "as_forces _ = Inl ValueError"

text \<open>\<^verbatim>\<open>Atom(symbol, position, tag=, momentum=, magmom=, charge=)\<close>.\<close>

definition Atom ::
  "pyval \<Rightarrow> pyval \<Rightarrow> pyval \<Rightarrow> pyval \<Rightarrow> pyval \<Rightarrow> pyval \<Rightarrow> error + atom" where
  "Atom sy po tg mo mg ch =
     bind (as_str sy) (\<lambda>s.
     bind (as_vec3 po) (\<lambda>p.
     bind (as_int tg) (\<lambda>t.
     bind (as_vec3 mo) (\<lambda>m.
     bind (as_float mg) (\<lambda>g.
     bind (as_float ch) (\<lambda>c.
       Inr \<lparr>symbol = s, position = p, tag = t, charge = c, momentum = m, magmom = g\<rparr>))))))"

text \<open>One step of the comprehension over \<^verbatim>\<open>doc['atoms']['atoms']\<close>: the six
  subscripts in the order of the call, then the constructor. The stored \<^verbatim>\<open>'index'\<close>
  is not read.\<close>

definition atom_from_dict :: "pyval \<Rightarrow> error + atom" where
  "atom_from_dict a =
     bind (getitem a ''symbol'') (\<lambda>sy.
     bind (getitem a ''position'') (\<lambda>po.
     bind (getitem a ''tag'') (\<lambda>tg.
     bind (getitem a ''momentum'') (\<lambda>mo.
     bind (getitem a ''magmom'') (\<lambda>mg.
     bind (getitem a ''charge'') (\<lambda>ch.
       Atom sy po tg mo mg ch))))))"

text \<open>\<^verbatim>\<open>Atoms([...], cell=, pbc=, info=, constraint=)\<close>: a structure without calculator.\<close>

definition Atoms_from_list ::
  "atom list \<Rightarrow> pyval \<Rightarrow> pyval \<Rightarrow> pyval \<Rightarrow> 'c list \<Rightarrow> error + 'c ase_atoms" where
  "Atoms_from_list as cl pb nfo cons =
     bind (as_mat3 cl) (\<lambda>c.
     bind (as_pbc pb) (\<lambda>p.
     bind (as_info nfo) (\<lambda>i.
       Inr \<lparr>atoms = as, cell = c, pbc = p, info = i, constraints = cons, calc = None\<rparr>)))"

text \<open>\<^verbatim>\<open>results.get(key, None)\<close>; only a dictionary has the method.\<close>

fun py_get :: "pyval \<Rightarrow> string \<Rightarrow> error + pyval" where
  "py_get (PDict d) key = Inr (dict_get d key)"
| "py_get _ key = Inl AttributeError"

text \<open>The constructor of the single-point calculator: a result that is \<^verbatim>\<open>None\<close> is
  not stored.\<close>

definition optional :: "(pyval \<Rightarrow> error + 'a) \<Rightarrow> pyval \<Rightarrow> error + 'a option" where
  "optional f v = (if v = PNone then Inr None else bind (f v) (\<lambda>x. Inr (Some x)))"

definition new_SinglePointCalculator :: "pyval \<Rightarrow> pyval \<Rightarrow> pyval \<Rightarrow> error + calculator" where
  "new_SinglePointCalculator energy forces stress =
     bind (optional as_float energy) (\<lambda>e.
     bind (optional as_forces forces) (\<lambda>f.
     bind (optional Inr stress) (\<lambda>st.
       Inr (SinglePointCalculator e f st))))"

text \<open>
  \<^verbatim>\<open>make_atoms_from_doc\<close>. The arguments of \<^verbatim>\<open>Atoms(...)\<close> are evaluated in the order
  of the call, the constraints last, and nothing catches an exception; the calculator
  is built and attached on every path that returns.
\<close>

definition make_atoms_from_doc :: "'c library \<Rightarrow> pyval \<Rightarrow> error + 'c ase_atoms" where
  "make_atoms_from_doc L doc =
     bind (bind (getitem doc ''atoms'') (\<lambda>d. getitem d ''atoms'')) (\<lambda>al.
     bind (py_iter al) (\<lambda>dicts.
     bind (traverse atom_from_dict dicts) (\<lambda>atom_list.
     bind (bind (getitem doc ''atoms'') (\<lambda>d.
             bind (getitem d ''cell'') (\<lambda>c. getitem c ''array''))) (\<lambda>cl.
     bind (bind (getitem doc ''atoms'') (\<lambda>d. getitem d ''pbc'')) (\<lambda>pb.
     bind (bind (getitem doc ''atoms'') (\<lambda>d. getitem d ''info'')) (\<lambda>nfo.
     bind (bind (getitem doc ''atoms'') (\<lambda>d. getitem d ''constraints'')) (\<lambda>cs.
     bind (py_iter cs) (\<lambda>constraint_dicts.
     bind (traverse (dict2constraint L) constraint_dicts) (\<lambda>cons.
     bind (Atoms_from_list atom_list cl pb nfo cons) (\<lambda>atoms.
     bind (getitem doc ''results'') (\<lambda>results.
     bind (py_get results ''energy'') (\<lambda>energy.
     bind (py_get results ''forces'') (\<lambda>forces.
     bind (py_get results ''stress'') (\<lambda>stress.
     bind (new_SinglePointCalculator energy forces stress) (\<lambda>calc.
       Inr (atoms\<lparr>calc := Some calc\<rparr>))))))))))))))))"

section \<open>defaults.py: the adsorbate catalog and the adsorption parameters\<close>

datatype constraint =
    FixAtoms "nat list"
  | Hookean nat nat real real  \<comment> \<open>\<^verbatim>\<open>Hookean(a1, a2, rt, k)\<close>\<close>

text \<open>
  \<^verbatim>\<open>_adsorbates()\<close>. The local \<^verbatim>\<open>ooh\<close> receives the two Hookean springs; the entry
  stored under \<^verbatim>\<open>'OOH'\<close> is built by a second \<^verbatim>\<open>Atoms(...)\<close> call.
\<close>

definition adsorbates_catalog :: "(string \<times> constraint ase_atoms) list" where
  "adsorbates_catalog =
     (let adsorbates = [];
          adsorbates = AList.update '''' (Atoms []) adsorbates;
          adsorbates = AList.update ''U'' (Atoms [(''U'', zero3)]) adsorbates;
          adsorbates = AList.update ''H'' (Atoms [(''H'', (0, 0, - 0.5))]) adsorbates;
          adsorbates = AList.update ''O'' (Atoms [(''O'', zero3)]) adsorbates;
          adsorbates = AList.update ''C'' (Atoms [(''C'', zero3)]) adsorbates;
          adsorbates = AList.update ''CO''
            (Atoms [(''C'', (0, 0, 0)), (''O'', (0, 0, 1.2))]) adsorbates;
          adsorbates = AList.update ''OH''
            (Atoms [(''O'', (0, 0, 0)), (''H'', (0, 0, 0.96))]) adsorbates;
          ooh = Atoms [(''O'', (0, 0, 0)), (''O'', (0, 0, 1.55)), (''H'', (0, 0.94, 1.80))];
          ooh = set_constraint (Hookean 0 1 1.95 10) ooh;
          ooh = set_constraint (Hookean 1 2 1.37 5) ooh;
          adsorbates = AList.update ''OOH''
            (Atoms [(''O'', (0, 0, 0)), (''O'', (0, 0, 1.55)), (''H'', (0, 0.94, 1.80))])
            adsorbates
      in adsorbates)"

text \<open>
  \<^verbatim>\<open>xc_settings\<close> and \<^verbatim>\<open>calc_settings\<close>; the table \<^verbatim>\<open>Vasp.xc_defaults\<close> of the
  \<^verbatim>\<open>vasp\<close> package is a parameter.
\<close>

definition xc_settings :: "(string \<Rightarrow> pydict option) \<Rightarrow> string \<Rightarrow> error + pydict" where
  "xc_settings xc_defaults xc =
     (if xc = ''rpbe'' then Inr [(''gga'', PStr ''RP''), (''pp'', PStr ''PBE'')]
      else case xc_defaults xc of None \<Rightarrow> Inl (KeyError xc) | Some d \<Rightarrow> Inr d)"

definition calc_settings :: "(string \<Rightarrow> pydict option) \<Rightarrow> string \<Rightarrow> error + pydict" where
  "calc_settings xc_defaults xc =
     bind (xc_settings xc_defaults xc) (\<lambda>default_settings.
       Inr (dict_update [(''encut'', PInt 350), (''pp_version'', PStr ''5.4'')]
              default_settings))"

datatype settings_arg = SettingsName string | SettingsDict pydict

datatype adsorbate_arg = AdsorbateName string | AdsorbateAtoms "constraint ase_atoms"

record adsorbate_entry =
  ads_name :: "constraint ase_atoms"
  ads_atoms :: string
  adsorption_site :: pyval

record adsorption_doc =
  numtosubmit :: int
  min_xy :: real
  relaxed :: bool
  num_slab_atoms :: int
  slabrepeat :: string
  adsorbates :: "adsorbate_entry list"
  vasp_settings :: pydict

text \<open>\<^verbatim>\<open>OrderedDict(k1=v1, ..., **settings)\<close>: a keyword given twice is a TypeError.\<close>

definition keyword_dict :: "pydict \<Rightarrow> pydict \<Rightarrow> error + pydict" where
  "keyword_dict fixed settings =
     (if \<exists>k \<in> set (keys settings). k \<in> set (keys fixed) then Inl TypeError
      else Inr (fixed @ settings))"

text \<open>
  \<^verbatim>\<open>adsorption_parameters\<close>. A name found in the catalog is replaced by the catalog's
  structure; a name that is not found stays a string, and reading \<^verbatim>\<open>.constraints\<close>
  from it raises AttributeError. The serialisation of the adsorbate
  (\<^verbatim>\<open>pickle.dumps(adsorbate.encode('hex'))\<close>) is the parameter \<open>dumps\<close>.
\<close>

definition adsorption_parameters ::
  "(string \<Rightarrow> pydict option) \<Rightarrow> (constraint ase_atoms \<Rightarrow> error + string) \<Rightarrow>
   adsorbate_arg \<Rightarrow> pyval \<Rightarrow> string \<Rightarrow> int \<Rightarrow> settings_arg \<Rightarrow> error + adsorption_doc" where
  "adsorption_parameters xc_defaults dumps adsorbate site srepeat nslab settings =
     bind (case settings of
             SettingsName xc \<Rightarrow> calc_settings xc_defaults xc
           | SettingsDict d \<Rightarrow> Inr d) (\<lambda>settings.
     bind (case adsorbate of
             AdsorbateName n \<Rightarrow>
               (case map_of adsorbates_catalog n of
                  Some a \<Rightarrow> Inr a
                | None \<Rightarrow> Inl AttributeError)
           | AdsorbateAtoms a \<Rightarrow> Inr a) (\<lambda>adsorbate.
     let nsw = (if constraints adsorbate \<noteq> [] then 0 else 200) in
     bind (dumps adsorbate) (\<lambda>pickled.
     bind (keyword_dict
             [(''ibrion'', PInt 2), (''nsw'', PInt nsw), (''isif'', PInt 0),
              (''isym'', PInt 0), (''kpts'', PList [PInt 4, PInt 4, PInt 1]),
              (''lreal'', PStr ''Auto''), (''ediffg'', PFloat (- 0.03))]
             settings) (\<lambda>vs.
     Inr \<lparr>numtosubmit = 1, min_xy = 4.5, relaxed = True, num_slab_atoms = nslab,
          slabrepeat = srepeat,
          adsorbates = [\<lparr>ads_name = adsorbate, ads_atoms = pickled,
                         adsorption_site = site\<rparr>],
          vasp_settings = vs\<rparr>))))"

section \<open>Concrete collaborators and inputs\<close>

text \<open>
  One instance of the library, used where a statement is evaluated on a concrete input.
  \<^item> The dictionaries of the two constraint kinds are those of \<^verbatim>\<open>ase.constraints\<close>
    (\<^verbatim>\<open>{'name': ..., 'kwargs': {...}}\<close>).
  \<^item> The factory follows \<^verbatim>\<open>ase.constraints.dict2constraint\<close>:
    \<^verbatim>\<open>dct['name']\<close> raises TypeError on a value that is no dictionary and KeyError
    on a dictionary without the key; a name that is not in the list of known kinds is a
    ValueError; then \<^verbatim>\<open>dct['kwargs']\<close> is read and the constructor called with the
    keyword arguments, which raises TypeError for an unexpected or a missing keyword.
    \<^verbatim>\<open>FixAtoms\<close> wants exactly one of \<^verbatim>\<open>indices\<close> and \<^verbatim>\<open>mask\<close> and no index
    twice (ValueError otherwise). The known kinds of the instance are the two of this
    development; \<^verbatim>\<open>ase\<close> knows more, and the instance is not evaluated on their
    names. Keyword values of another type than \<^verbatim>\<open>todict\<close> writes (and a
    \<^verbatim>\<open>Hookean\<close> dictionary without \<^verbatim>\<open>rt\<close>) are outside the instance, which rejects
    them with ValueError.
  \<^item> \<^verbatim>\<open>get_scaled_positions\<close> solves a linear system in the cell, after \<^verbatim>\<open>ase\<close> has
    replaced zero cell vectors by vectors that complete the others:
    \<^verbatim>\<open>numpy.linalg.solve\<close> raises LinAlgError for a singular cell none of whose
    vectors is zero. The positions it returns otherwise only feed the space-group
    detection, which answers with one fixed label.
  \<^item> The determinant is the exact one, and a fixed atom feels no force.
\<close>

fun example_adjust :: "constraint \<Rightarrow> vec3 list \<Rightarrow> vec3 list" where
  "example_adjust (FixAtoms is) fs =
     map (\<lambda>(i, f). if i \<in> set is then zero3 else f) (enumerate 0 fs)"
| "example_adjust (Hookean i j r c) fs = fs"

definition det3 :: "mat3 \<Rightarrow> real" where
  "det3 m =
     (case m of ((a, b, c), (d, e, f), (g, h, i)) \<Rightarrow>
        a * (e * i - f * h) - b * (d * i - f * g) + c * (d * h - e * g))"

definition has_zero_vector :: "mat3 \<Rightarrow> bool" where
  "has_zero_vector m = (case m of (a, b, c) \<Rightarrow> a = zero3 \<or> b = zero3 \<or> c = zero3)"

definition example_scaled_positions ::
  "atom list \<times> mat3 \<times> (bool \<times> bool \<times> bool) \<Rightarrow> error + vec3 list" where
  "example_scaled_positions g =
     (case g of (as, m, p) \<Rightarrow>
        if det3 m = 0 \<and> \<not> has_zero_vector m then Inl (LibraryError ''LinAlgError'')
        else Inr (map position as))"

fun constraint_todict :: "constraint \<Rightarrow> pyval" where
  "constraint_todict (FixAtoms is) =
     PDict [(''name'', PStr ''FixAtoms''),
            (''kwargs'', PDict [(''indices'', PList (map (PInt \<circ> int) is))])]"
| "constraint_todict (Hookean i j r c) =
     PDict [(''name'', PStr ''Hookean''),
            (''kwargs'', PDict [(''a1'', PInt (int i)), (''a2'', PInt (int j)),
                               (''rt'', PFloat r), (''k'', PFloat c)])]"

definition known_kinds :: "pyval list" where
  "known_kinds = [PStr ''FixAtoms'', PStr ''Hookean'']"

text \<open>\<^verbatim>\<open>FixAtoms(**kwargs)\<close> and \<^verbatim>\<open>Hookean(**kwargs)\<close>.\<close>

definition new_FixAtoms :: "pydict \<Rightarrow> error + constraint" where
  "new_FixAtoms kw =
     (if \<not> set (keys kw) \<subseteq> {''indices'', ''mask''} then Inl TypeError
      else
        let indices = dict_get kw ''indices''; mask = dict_get kw ''mask'' in
        if indices = PNone \<and> mask = PNone then Inl ValueError
        else if indices \<noteq> PNone \<and> mask \<noteq> PNone then Inl ValueError
        else if mask \<noteq> PNone then
          bind (py_iter mask) (\<lambda>ms.
          bind (traverse as_bool ms) (\<lambda>bs.
            Inr (FixAtoms (map fst (filter snd (enumerate 0 bs))))))
        else
          bind (py_iter indices) (\<lambda>xs.
          bind (traverse as_int xs) (\<lambda>is.
            if distinct is \<and> list_all (\<lambda>i. 0 \<le> i) is then Inr (FixAtoms (map nat is))
            else Inl ValueError)))"

definition new_Hookean :: "pydict \<Rightarrow> error + constraint" where
  "new_Hookean kw =
     (if \<not> set (keys kw) \<subseteq> {''a1'', ''a2'', ''k'', ''rt''} then Inl TypeError
      else if \<not> {''a1'', ''a2'', ''k''} \<subseteq> set (keys kw) then Inl TypeError
      else
        bind (as_int (dict_get kw ''a1'')) (\<lambda>i.
        bind (as_int (dict_get kw ''a2'')) (\<lambda>j.
        bind (as_float (dict_get kw ''rt'')) (\<lambda>r.
        bind (as_float (dict_get kw ''k'')) (\<lambda>c.
          if 0 \<le> i \<and> 0 \<le> j then Inr (Hookean (nat i) (nat j) r c)
          else Inl ValueError)))))"

text \<open>\<^verbatim>\<open>f(**kwargs)\<close> wants a mapping.\<close>

definition call_with_kwargs :: "(pydict \<Rightarrow> error + 'a) \<Rightarrow> pyval \<Rightarrow> error + 'a" where
  "call_with_kwargs f kwargs = (case kwargs of PDict kw \<Rightarrow> f kw | _ \<Rightarrow> Inl TypeError)"

definition constraint_of_dict :: "pyval \<Rightarrow> error + constraint" where
  "constraint_of_dict dct =
     bind (getitem dct ''name'') (\<lambda>name.
       if name \<notin> set known_kinds then Inl ValueError
       else
         bind (getitem dct ''kwargs'') (\<lambda>kwargs.
           if name = PStr ''FixAtoms'' then call_with_kwargs new_FixAtoms kwargs
           else call_with_kwargs new_Hookean kwargs))"

definition example_library :: "constraint library" where
  "example_library =
     \<lparr>todict = constraint_todict,
      dict2constraint = constraint_of_dict,
      adjust_forces = (\<lambda>c g fs. example_adjust c fs),
      get_masses = map (\<lambda>a. 1),
      get_atomic_numbers = map (\<lambda>a. 1),
      get_scaled_positions = example_scaled_positions,
      get_volume = (\<lambda>m. \<bar>det3 m\<bar>),
      get_spacegroup = (\<lambda>c. Inr (PStr ''P1 (1)'')),
      linalg_det = det3\<rparr>"

definition unit_cell :: mat3 where
  "unit_cell = ((1, 0, 0), (0, 1, 0), (0, 0, 1))"

text \<open>A hydrogen atom in a unit cell, without calculator.\<close>

definition hydrogen :: "constraint ase_atoms" where
  "hydrogen = (Atoms [(''H'', (0, 0, - 0.5))])\<lparr>cell := unit_cell\<rparr>"

text \<open>Carbon monoxide, its oxygen fixed, with the results of a finished run: energy
  \<open>-14.2\<close> and forces for both atoms; the engine reports per-atom moments equal to the
  static ones.\<close>

definition finished_engine :: engine where
  "finished_engine =
     \<lparr>ext_todict = Inr [(''kpts'', PList [PFloat 4, PFloat 4, PFloat 1])],
      ext_module = ''vasp'',
      ext_class = ''Vasp'',
      ext_calculation_required = (\<lambda>properties. False),
      ext_potential_energy = - 14.2,
      ext_forces = [(0, 0, 0.1), (0, 0.2, - 0.3)],
      ext_magnetic_moments = Inr [0, 0]\<rparr>"

definition carbon_monoxide :: "constraint ase_atoms" where
  "carbon_monoxide =
     (Atoms [(''C'', (0, 0, 0)), (''O'', (0, 0, 1.2))])
       \<lparr>cell := unit_cell, constraints := [FixAtoms [1]],
        calc := Some (Engine finished_engine)\<rparr>"



definition polarised_monoxide :: "constraint ase_atoms" where
  "polarised_monoxide =
     carbon_monoxide
       \<lparr>calc := Some (Engine (finished_engine\<lparr>ext_magnetic_moments := Inr [1.5, 0.25]\<rparr>))\<rparr>"


definition no_atoms_with_forces :: "constraint ase_atoms" where
  "no_atoms_with_forces = (Atoms [])\<lparr>calc := Some (SinglePointCalculator None (Some []) None)\<rparr>"

text \<open>A clock that advances with every reading, and one that stands still.\<close>

definition ticking :: world where
  "ticking = \<lparr>env_user = Some ''gaspy'', clock = (\<lambda>n. 1000 + n), ticks = 0\<rparr>"

definition frozen :: world where
  "frozen = \<lparr>env_user = None, clock = (\<lambda>n. 1000), ticks = 0\<rparr>"

text \<open>A stored document without atoms and with an empty \<^verbatim>\<open>results\<close>; one whose only
  constraint is of a kind that no library knows; and one whose only constraint entry
  lacks its name.\<close>

definition atoms_subdoc :: "pyval list \<Rightarrow> pyval" where
  "atoms_subdoc cs =
     PDict [(''atoms'', PList []),
            (''cell'', cell_json unit_cell),
            (''pbc'', pbc_json (False, False, False)),
            (''info'', PDict []),
            (''constraints'', PList cs)]"

definition bare_doc :: pyval where
  "bare_doc = PDict [(''atoms'', atoms_subdoc []), (''results'', PDict [])]"

definition unknown_constraint :: pyval where
  "unknown_constraint = PDict [(''name'', PStr ''HookeanV2''), (''kwargs'', PDict [])]"

definition forward_doc :: pyval where
  "forward_doc =
     PDict [(''atoms'', atoms_subdoc [unknown_constraint]), (''results'', PDict [])]"

definition nameless_constraint :: pyval where
  "nameless_constraint = PDict [(''kwargs'', PDict [(''indices'', PList [PInt 0])])]"

definition malformed_doc :: pyval where
  "malformed_doc =
     PDict [(''atoms'', atoms_subdoc [nameless_constraint]), (''results'', PDict [])]"

section \<open>Basic facts\<close>

lemma bind_Inr [simp]: "bind (Inr x) f = f x"
  by (simp add: bind_def)

lemma bind_Inl [simp]: "bind (Inl e) f = Inl e"
  by (simp add: bind_def)

lemma bind_eq_Inr: "bind m f = Inr y \<longleftrightarrow> (\<exists>x. m = Inr x \<and> f x = Inr y)"
  by (cases m) simp_all

lemma map_of_dict_update_other:
  "k \<notin> set (keys other) \<Longrightarrow> map_of (dict_update d other) k = map_of d k"
  unfolding dict_update_def keys_def
  by (induction other arbitrary: d) (auto simp: update_conv')

lemma traverse_map_Inr:
  "(\<And>x. x \<in> set xs \<Longrightarrow> f (g x) = Inr (h x)) \<Longrightarrow> traverse f (map g xs) = Inr (map h xs)"
  by (induction xs) simp_all

lemma traverse_Inl_source:
  "traverse f xs = Inl e \<Longrightarrow> \<exists>x \<in> set xs. f x = Inl e"
  by (induction xs) (auto split: sum.splits)

lemma traverse_rejects:
  "x \<in> set xs \<Longrightarrow> f x = Inl e \<Longrightarrow> \<exists>e'. traverse f xs = Inl e'"
  by (induction xs) (auto split: sum.splits)

lemma as_vec3_json [simp]: "as_vec3 (vec3_json v) = Inr v"
  by (cases v) (simp add: vec3_json_def)

lemma as_mat3_json [simp]: "as_mat3 (mat3_json m) = Inr m"
  by (cases m) (simp add: mat3_json_def)

lemma as_pbc_json [simp]: "as_pbc (pbc_json p) = Inr p"
  by (cases p) (simp add: pbc_json_def)

lemma as_forces_tolist [simp]: "as_forces (forces_tolist fs) = Inr fs"
  by (simp add: forces_tolist_def traverse_map_Inr [where h = "\<lambda>x. x", simplified])

lemma atom_from_dict_atom_dict [simp]:
  "atom_from_dict (atom_dict i a m) = Inr (a\<lparr>magmom := m\<rparr>)"
  by (simp add: atom_from_dict_def atom_dict_def Atom_def json_loads_encode_def)

lemma traverse_atom_dicts_static:
  "traverse atom_from_dict (atom_dicts_static as) = Inr as"
proof -
  have "traverse atom_from_dict (map (\<lambda>(i, a). atom_dict i a (magmom a)) ps) = Inr (map snd ps)"
    for ps :: "(nat \<times> atom) list"
    by (rule traverse_map_Inr) auto
  then show ?thesis
    by (simp add: atom_dicts_static_def)
qed

section \<open>The decoder and the results of a document\<close>

text \<open>Every structure that the decoder returns carries a single-point calculator, built
  from the three entries of \<^verbatim>\<open>results\<close>.\<close>

lemma decode_attaches:
  assumes "make_atoms_from_doc L doc = Inr s"
  shows "\<exists>r e f st. getitem doc ''results'' = Inr (PDict r) \<and>
           optional as_float (dict_get r ''energy'') = Inr e \<and>
           optional as_forces (dict_get r ''forces'') = Inr f \<and>
           optional Inr (dict_get r ''stress'') = Inr st \<and>
           calc s = Some (SinglePointCalculator e f st)"
proof -
  from assms obtain a results energy forces stress c
    where r: "getitem doc ''results'' = Inr results"
      and e: "py_get results ''energy'' = Inr energy"
      and f: "py_get results ''forces'' = Inr forces"
      and st: "py_get results ''stress'' = Inr stress"
      and c: "new_SinglePointCalculator energy forces stress = Inr c"
      and s: "s = a\<lparr>calc := Some c\<rparr>"
    unfolding make_atoms_from_doc_def by (auto simp: bind_eq_Inr)
  from e obtain r' where r': "results = PDict r'"
    by (cases results) simp_all
  from c obtain e' f' st' where
    "optional as_float energy = Inr e'" "optional as_forces forces = Inr f'"
    "optional Inr stress = Inr st'" "c = SinglePointCalculator e' f' st'"
    unfolding new_SinglePointCalculator_def by (auto simp: bind_eq_Inr)
  with r e f st r' s show ?thesis by auto
qed

text \<open>
  C2, as the code has it: the claim says that a document with an empty \<^verbatim>\<open>results\<close>
  decodes to a structure without calculator. The decoder attaches a
  \<^verbatim>\<open>SinglePointCalculator\<close> on every path (its docstring says so); for an empty
  \<^verbatim>\<open>results\<close> that calculator holds no energy, no forces and no stress: the three are
  unknown, none is zero or made up.
\<close>

theorem decode_empty_results:
  "getitem doc ''results'' = Inr (PDict []) \<Longrightarrow> make_atoms_from_doc L doc = Inr s \<Longrightarrow>
   calc s = Some (SinglePointCalculator None None None)"
  by (drule decode_attaches) (auto simp: dict_get_def optional_def)

lemma bare_doc_decodes:
  "make_atoms_from_doc example_library bare_doc =
     Inr \<lparr>atoms = [], cell = unit_cell, pbc = (False, False, False), info = [],
          constraints = [], calc = Some (SinglePointCalculator None None None)\<rparr>"
  by (simp add: make_atoms_from_doc_def bare_doc_def atoms_subdoc_def cell_json_def
      Atoms_from_list_def dict_get_def new_SinglePointCalculator_def optional_def)

theorem decode_empty_results_witness:
  "getitem bare_doc ''results'' = Inr (PDict []) \<and>
   (\<exists>s. make_atoms_from_doc example_library bare_doc = Inr s \<and>
        calc s = Some (SinglePointCalculator None None None))"
proof -
  have r: "getitem bare_doc ''results'' = Inr (PDict [])"
    by (simp add: bare_doc_def)
  from decode_empty_results [OF r bare_doc_decodes] r bare_doc_decodes
  show ?thesis by simp
qed

text \<open>The claim of C2 as stated fails on the document without atoms and with
  \<^verbatim>\<open>results: {}\<close>: the decoded structure has a calculator.\<close>

theorem decode_empty_results_has_calculator:
  "getitem bare_doc ''results'' = Inr (PDict []) \<and>
   (\<exists>s. make_atoms_from_doc example_library bare_doc = Inr s \<and> calc s \<noteq> None)"
  by (simp add: bare_doc_decodes) (simp add: bare_doc_def)

section \<open>Properties of the adsorbate catalog\<close>

lemma catalog_OOH:
  "map_of adsorbates_catalog ''OOH'' =
     Some (Atoms [(''O'', (0, 0, 0)), (''O'', (0, 0, 1.55)), (''H'', (0, 0.94, 1.80))])"
  by (simp add: adsorbates_catalog_def Let_def update_conv')

text \<open>
  C9: the claim says that the catalog's OOH entry carries the O-O and O-H springs, so that
  the zero-ionic-step path is taken for it. In the code the entry found under
  \<^verbatim>\<open>'OOH'\<close> has no constraint at all, and \<^verbatim>\<open>adsorption_parameters\<close> gives it
  \<^verbatim>\<open>nsw = 200\<close>, whatever the settings and whenever the serialisation returns.
\<close>

theorem OOH_entry_unconstrained:
  "(\<exists>a. map_of adsorbates_catalog ''OOH'' = Some a \<and> constraints a = []) \<and>
   (case adsorption_parameters xc_defaults (\<lambda>a. Inr ''pickled'') (AdsorbateName ''OOH'')
           PNone ''(1, 1)'' 0 (SettingsDict []) of
      Inr d \<Rightarrow> map_of (vasp_settings d) ''nsw'' = Some (PInt 200)
    | Inl e \<Rightarrow> False)"
  by (simp add: catalog_OOH Atoms_def adsorption_parameters_def bind_def keyword_dict_def
      keys_def)

section \<open>The document as a whole\<close>

text \<open>What \<^verbatim>\<open>make_doc_from_atoms\<close> returns when its three sub-encoders return.\<close>

lemma make_doc_from_atoms_Inr:
  assumes "make_doc_from_atoms L w s kwargs = Inr (doc, w')"
  shows "\<exists>ad cd rd.
           make_atoms_dict L s = Inr ad \<and> make_calculator_dict L s = Inr cd \<and>
           snd (make_results_dict L s) = Inr rd \<and>
           doc = dict_update
                   [(''atoms'', PDict ad), (''calc'', PDict cd), (''results'', PDict rd),
                    (''user'', getenv_USER w), (''ctime'', PDatetime (clock w (ticks w))),
                    (''mtime'', PDatetime (clock w (ticks w + 1)))] kwargs \<and>
           w' = w\<lparr>ticks := ticks w + 2\<rparr>"
  using assms unfolding make_doc_from_atoms_def
  by (auto simp: bind_eq_Inr Let_def utcnow_def dict_update_def)

lemma make_doc_from_atoms_success:
  assumes "make_atoms_dict L s = Inr ad" "make_calculator_dict L s = Inr cd"
    "snd (make_results_dict L s) = Inr rd"
  shows "make_doc_from_atoms L w s kwargs =
           Inr (dict_update
                   [(''atoms'', PDict ad), (''calc'', PDict cd), (''results'', PDict rd),
                    (''user'', getenv_USER w), (''ctime'', PDatetime (clock w (ticks w))),
                    (''mtime'', PDatetime (clock w (ticks w + 1)))] kwargs,
                w\<lparr>ticks := ticks w + 2\<rparr>)"
  using assms unfolding make_doc_from_atoms_def
  by (auto simp: bind_eq_Inr Let_def utcnow_def dict_update_def)

text \<open>The document of a hydrogen atom without calculator.\<close>

lemma hydrogen_atoms_dict:
  "make_atoms_dict example_library hydrogen =
     Inr [(''atoms'', PList [atom_dict 0 (new_atom ''H'' (0, 0, - 0.5)) 0]),
          (''cell'', cell_json unit_cell),
          (''pbc'', pbc_json (False, False, False)),
          (''info'', PDict []),
          (''constraints'', PList []),
          (''natoms'', PInt 1),
          (''mass'', PFloat 1),
          (''spacegroup'', PStr ''P1 (1)''),
          (''chemical_symbols'', PList [PStr ''H'']),
          (''symbol_counts'', PDict [(''H'', PInt 1)]),
          (''volume'', PFloat 1)]"
  by (simp add: make_atoms_dict_def atoms_dict_try_def get_magnetic_moments_def hydrogen_def
      Atoms_def atom_dicts_static_def atoms_dict_init_def example_library_def
      make_spglib_cell_from_atoms_def geometry_def Let_def json_loads_encode_def
      unit_cell_def det3_def new_atom_def example_scaled_positions_def)

lemma hydrogen_doc:
  "make_doc_from_atoms example_library w hydrogen [] =
     Inr ([(''atoms'', PDict
             [(''atoms'', PList [atom_dict 0 (new_atom ''H'' (0, 0, - 0.5)) 0]),
              (''cell'', cell_json unit_cell),
              (''pbc'', pbc_json (False, False, False)),
              (''info'', PDict []),
              (''constraints'', PList []),
              (''natoms'', PInt 1),
              (''mass'', PFloat 1),
              (''spacegroup'', PStr ''P1 (1)''),
              (''chemical_symbols'', PList [PStr ''H'']),
              (''symbol_counts'', PDict [(''H'', PInt 1)]),
              (''volume'', PFloat 1)]),
           (''calc'', PDict []), (''results'', PDict []),
           (''user'', getenv_USER w), (''ctime'', PDatetime (clock w (ticks w))),
           (''mtime'', PDatetime (clock w (ticks w + 1)))],
          w\<lparr>ticks := ticks w + 2\<rparr>)"
proof -
  have c: "make_calculator_dict example_library hydrogen = Inr []"
    by (simp add: make_calculator_dict_def hydrogen_def Atoms_def)
  have r: "snd (make_results_dict example_library hydrogen) = Inr []"
    by (simp add: make_results_dict_def hydrogen_def Atoms_def)
  show ?thesis
    by (simp add: make_doc_from_atoms_success [OF hydrogen_atoms_dict c r] dict_update_def)
qed

text \<open>
  C8, as the code has it: the claim says that \<^verbatim>\<open>ctime\<close> and \<^verbatim>\<open>mtime\<close> hold the same
  value. The code calls \<^verbatim>\<open>datetime.datetime.utcnow()\<close> once for each field, so, when
  the caller's extra fields override neither, \<^verbatim>\<open>ctime\<close> is the reading taken first
  and \<^verbatim>\<open>mtime\<close> the reading taken next; they are equal exactly when the clock gives
  the same reading twice.
\<close>

theorem timestamps_successive_readings:
  assumes "make_doc_from_atoms L w s kwargs = Inr (doc, w')"
    and "''ctime'' \<notin> set (keys kwargs)" and "''mtime'' \<notin> set (keys kwargs)"
  shows "map_of doc ''ctime'' = Some (PDatetime (clock w (ticks w))) \<and>
         map_of doc ''mtime'' = Some (PDatetime (clock w (ticks w + 1))) \<and>
         ticks w' = ticks w + 2"
  using make_doc_from_atoms_Inr [OF assms(1)] assms(2,3)
  by (auto simp: map_of_dict_update_other)

theorem timestamps_successive_readings_witness:
  "\<exists>doc w'. make_doc_from_atoms example_library frozen hydrogen [] = Inr (doc, w') \<and>
     ''ctime'' \<notin> set (keys []) \<and> ''mtime'' \<notin> set (keys []) \<and>
     map_of doc ''ctime'' = Some (PDatetime 1000) \<and>
     map_of doc ''mtime'' = Some (PDatetime 1000) \<and> ticks w' = 2"
proof -
  obtain doc w' where d: "make_doc_from_atoms example_library frozen hydrogen [] = Inr (doc, w')"
    by (simp add: hydrogen_doc)
  have k: "''ctime'' \<notin> set (keys [])" "''mtime'' \<notin> set (keys [])"
    by (simp_all add: keys_def)
  from timestamps_successive_readings [OF d k] d k show ?thesis
    by (simp add: frozen_def)
qed

text \<open>The claim of C8 as stated fails when the clock advances between the two
  readings.\<close>

theorem timestamps_differ:
  "\<exists>doc w'. make_doc_from_atoms example_library ticking hydrogen [] = Inr (doc, w') \<and>
     map_of doc ''ctime'' = Some (PDatetime 1000) \<and>
     map_of doc ''mtime'' = Some (PDatetime 1001) \<and>
     map_of doc ''ctime'' \<noteq> map_of doc ''mtime''"
  by (simp add: hydrogen_doc ticking_def)

section \<open>Constraints that the factory rejects\<close>

lemma decode_constraints_accepted:
  assumes dec: "make_atoms_from_doc L (PDict doc) = Inr s"
    and a: "map_of doc ''atoms'' = Some (PDict d)"
    and cs: "map_of d ''constraints'' = Some cs"
  shows "\<exists>cds. py_iter cs = Inr cds \<and> traverse (dict2constraint L) cds = Inr (constraints s)"
  using dec a cs unfolding make_atoms_from_doc_def Atoms_from_list_def
  by (auto simp: bind_eq_Inr)

lemma not_Inr_is_Inl: "(\<And>y. m \<noteq> Inr y) \<Longrightarrow> \<exists>e. m = Inl e"
  by (cases m) auto

lemma decode_without_constraints:
  assumes dec: "make_atoms_from_doc L
                  (PDict (AList.update ''atoms''
                            (PDict (AList.update ''constraints'' (PList []) d)) doc)) = Inr s0"
    and a: "map_of doc ''atoms'' = Some (PDict d)"
    and cs: "map_of d ''constraints'' = Some cs"
    and it: "py_iter cs = Inr cds"
  shows "make_atoms_from_doc L (PDict doc) =
           bind (traverse (dict2constraint L) cds) (\<lambda>cons. Inr (s0\<lparr>constraints := cons\<rparr>))"
  using dec a cs it unfolding make_atoms_from_doc_def Atoms_from_list_def
  by (auto simp: bind_eq_Inr update_conv' split: sum.splits)

text \<open>
  C7, as the code has it: the claim says that a document with an unrecognised or
  malformed constraint entry makes the decoder raise \<^verbatim>\<open>UnsupportedConstraintKind\<close>.
  The decoder has no exception of its own: it calls the factory on every entry and
  catches nothing. So, for every factory, when the factory rejects one of the constraint
  entries of a document, decoding returns no structure at all; and when the rest of the
  document is well formed (the same document with an empty constraint list decodes),
  the exception that reaches the caller is the one the factory raised on the first
  entry it rejected, unchanged.
\<close>

theorem rejected_constraint_raises:
  assumes a: "map_of doc ''atoms'' = Some (PDict d)"
    and cs: "map_of d ''constraints'' = Some cs"
    and it: "py_iter cs = Inr cds"
    and c: "c \<in> set cds"
    and rej: "dict2constraint L c = Inl e0"
  shows "(\<exists>e. make_atoms_from_doc L (PDict doc) = Inl e) \<and>
         (\<forall>s0. make_atoms_from_doc L
                 (PDict (AList.update ''atoms''
                           (PDict (AList.update ''constraints'' (PList []) d)) doc)) = Inr s0 \<longrightarrow>
            (\<exists>e. make_atoms_from_doc L (PDict doc) = Inl e \<and>
                 traverse (dict2constraint L) cds = Inl e \<and>
                 (\<exists>c' \<in> set cds. dict2constraint L c' = Inl e)))"
proof (intro conjI allI impI)
  from traverse_rejects [of c cds "dict2constraint L" e0, OF c rej] obtain e where e: "traverse (dict2constraint L) cds = Inl e"
    by blast
  show "\<exists>e. make_atoms_from_doc L (PDict doc) = Inl e"
  proof (rule not_Inr_is_Inl)
    fix s
    show "make_atoms_from_doc L (PDict doc) \<noteq> Inr s"
    proof
      assume "make_atoms_from_doc L (PDict doc) = Inr s"
      from decode_constraints_accepted [OF this a cs] it e show False by simp
    qed
  qed
  fix s0
  assume "make_atoms_from_doc L
            (PDict (AList.update ''atoms''
                      (PDict (AList.update ''constraints'' (PList []) d)) doc)) = Inr s0"
  from decode_without_constraints [OF this a cs it] e traverse_Inl_source [OF e]
  show "\<exists>e. make_atoms_from_doc L (PDict doc) = Inl e \<and>
             traverse (dict2constraint L) cds = Inl e \<and>
             (\<exists>c' \<in> set cds. dict2constraint L c' = Inl e)"
    by simp
qed

lemma unknown_constraint_rejected:
  "constraint_of_dict unknown_constraint = Inl ValueError"
  by (simp add: constraint_of_dict_def unknown_constraint_def known_kinds_def)

lemma nameless_constraint_rejected:
  "constraint_of_dict nameless_constraint = Inl (KeyError ''name'')"
  by (simp add: constraint_of_dict_def nameless_constraint_def)

theorem rejected_constraint_raises_witness:
  "unknown_constraint \<in> set [unknown_constraint] \<and>
   dict2constraint example_library unknown_constraint = Inl ValueError \<and>
   (\<exists>s0. make_atoms_from_doc example_library bare_doc = Inr s0) \<and>
   make_atoms_from_doc example_library forward_doc = Inl ValueError"
proof -
  let ?d = "[(''atoms'', PList []), (''cell'', cell_json unit_cell),
             (''pbc'', pbc_json (False, False, False)), (''info'', PDict []),
             (''constraints'', PList [unknown_constraint])]"
  let ?doc = "[(''atoms'', PDict ?d), (''results'', PDict [])]"
  have a: "map_of ?doc ''atoms'' = Some (PDict ?d)" by simp
  have cs: "map_of ?d ''constraints'' = Some (PList [unknown_constraint])" by simp
  have it: "py_iter (PList [unknown_constraint]) = Inr [unknown_constraint]" by simp
  have c: "unknown_constraint \<in> set [unknown_constraint]" by simp
  have rej: "dict2constraint example_library unknown_constraint = Inl ValueError"
    by (simp add: example_library_def unknown_constraint_rejected)
  have bare: "PDict (AList.update ''atoms''
                (PDict (AList.update ''constraints'' (PList []) ?d)) ?doc) = bare_doc"
    by (simp add: bare_doc_def atoms_subdoc_def)
  have fwd: "PDict ?doc = forward_doc"
    by (simp add: forward_doc_def atoms_subdoc_def)
  from rejected_constraint_raises [OF a cs it c rej] bare fwd bare_doc_decodes rej
  show ?thesis by auto
qed

text \<open>
  The claim of C7 as stated fails: the exception that reaches the caller is not
  \<^verbatim>\<open>UnsupportedConstraintKind\<close>, which the code neither defines nor raises. With the
  factory of \<^verbatim>\<open>ase\<close>, a constraint entry of an unknown kind makes the decoder raise
  ValueError, and an entry without its name makes it raise KeyError.
\<close>

theorem unknown_kind_raises_ValueError:
  "make_atoms_from_doc example_library forward_doc = Inl ValueError \<and>
   make_atoms_from_doc example_library malformed_doc = Inl (KeyError ''name'') \<and>
   (\<forall>d. make_atoms_from_doc example_library forward_doc \<noteq> Inl (UnsupportedConstraintKind d)) \<and>
   (\<forall>d. make_atoms_from_doc example_library malformed_doc \<noteq> Inl (UnsupportedConstraintKind d))"
proof -
  have f: "make_atoms_from_doc example_library forward_doc = Inl ValueError"
    by (simp add: make_atoms_from_doc_def forward_doc_def atoms_subdoc_def cell_json_def
        example_library_def unknown_constraint_rejected)
  have m: "make_atoms_from_doc example_library malformed_doc = Inl (KeyError ''name'')"
    by (simp add: make_atoms_from_doc_def malformed_doc_def atoms_subdoc_def cell_json_def
        example_library_def nameless_constraint_rejected)
  show ?thesis by (simp add: f m)
qed

section \<open>The results sub-document\<close>

text \<open>A property that needs no calculation can be read: the getter returns.\<close>

lemma cached_energy:
  "\<not> calculation_required c [''energy''] \<Longrightarrow> \<exists>e. calc_get_potential_energy c = Inr e"
  by (cases c) auto

lemma cached_forces:
  "\<not> calculation_required c [''forces''] \<Longrightarrow> \<exists>f. calc_get_forces c = Inr f"
  by (cases c) auto

lemma flatten_Nil [simp]: "flatten fs = [] \<longleftrightarrow> fs = []"
  by (cases fs) (auto simp: flatten_def)

lemma fold_max_Max: "fold max xs (x::real) = Max (insert x (set xs))"
  using Max.set_eq_fold [of x xs] by simp

lemma py_max_Inr: "py_max xs = Inr m \<longleftrightarrow> xs \<noteq> [] \<and> m = Max (set xs)"
  by (cases xs) (auto simp: fold_max_Max)

lemma py_max_Inl: "py_max xs = Inl e \<longleftrightarrow> xs = [] \<and> e = ValueError"
  by (cases xs) auto

lemma make_results_dict_None:
  "calc s = None \<Longrightarrow> make_results_dict L s = ([], Inr [])"
  by (simp add: make_results_dict_def)

lemma make_results_dict_neither:
  "calc s = Some c \<Longrightarrow> calculation_required c [''energy''] \<Longrightarrow>
   calculation_required c [''forces''] \<Longrightarrow> make_results_dict L s = ([], Inr [])"
  by (simp add: make_results_dict_def)

lemma make_results_dict_energy:
  "calc s = Some c \<Longrightarrow> \<not> calculation_required c [''energy''] \<Longrightarrow>
   calc_get_potential_energy c = Inr e \<Longrightarrow> calculation_required c [''forces''] \<Longrightarrow>
   make_results_dict L s = ([''energy''], Inr [(''energy'', PFloat e)])"
  by (simp add: make_results_dict_def get_potential_energy_unconstrained_def)

lemma make_results_dict_forces:
  "calc s = Some c \<Longrightarrow> calculation_required c [''energy''] \<Longrightarrow>
   \<not> calculation_required c [''forces''] \<Longrightarrow> calc_get_forces c = Inr f \<Longrightarrow>
   make_results_dict L s =
     ([''forces'', ''forces''],
      bind (py_max (map abs (flatten (constrained_forces L s f)))) (\<lambda>m.
        Inr [(''forces'', forces_tolist f), (''fmax'', PFloat m)]))"
  by (simp add: make_results_dict_def get_forces_def)

lemma make_results_dict_both:
  "calc s = Some c \<Longrightarrow> \<not> calculation_required c [''energy''] \<Longrightarrow>
   calc_get_potential_energy c = Inr e \<Longrightarrow>
   \<not> calculation_required c [''forces''] \<Longrightarrow> calc_get_forces c = Inr f \<Longrightarrow>
   make_results_dict L s =
     ([''energy'', ''forces'', ''forces''],
      bind (py_max (map abs (flatten (constrained_forces L s f)))) (\<lambda>m.
        Inr [(''energy'', PFloat e), (''forces'', forces_tolist f), (''fmax'', PFloat m)]))"
  by (simp add: make_results_dict_def get_forces_def get_potential_energy_unconstrained_def)

text \<open>
  C3: for a structure with a calculator, \<^verbatim>\<open>_make_results_dict\<close> reads through a getter
  only properties for which the calculator requires no calculation, so it launches none;
  it returns unless the forces are held and the constrained forces are an empty array
  (then \<^verbatim>\<open>max\<close> raises); and in what it returns, \<^verbatim>\<open>energy\<close> is present exactly when
  no calculation of the energy is required and holds the calculator's own energy,
  \<^verbatim>\<open>forces\<close> is present exactly when no calculation of the forces is required and holds
  the calculator's own forces, while \<^verbatim>\<open>fmax\<close> is the largest absolute component of
  the forces after every constraint has adjusted them.
\<close>

theorem results_read_from_cache:
  assumes c: "calc s = Some c"
  shows "(\<forall>q \<in> set (fst (make_results_dict L s)). \<not> calculation_required c [q]) \<and>
         ((\<exists>r. snd (make_results_dict L s) = Inr r) \<longleftrightarrow>
            calculation_required c [''forces''] \<or>
            (\<exists>f. calc_get_forces c = Inr f \<and> constrained_forces L s f \<noteq> [])) \<and>
         (\<forall>r. snd (make_results_dict L s) = Inr r \<longrightarrow>
            (''energy'' \<in> set (keys r) \<longleftrightarrow> \<not> calculation_required c [''energy'']) \<and>
            (''forces'' \<in> set (keys r) \<longleftrightarrow> \<not> calculation_required c [''forces'']) \<and>
            (\<not> calculation_required c [''energy''] \<longrightarrow>
               (\<exists>e. calc_get_potential_energy c = Inr e \<and>
                    map_of r ''energy'' = Some (PFloat e))) \<and>
            (\<not> calculation_required c [''forces''] \<longrightarrow>
               (\<exists>f. calc_get_forces c = Inr f \<and>
                    map_of r ''forces'' = Some (forces_tolist f) \<and>
                    map_of r ''fmax'' =
                      Some (PFloat (Max (set (map abs (flatten (constrained_forces L s f)))))))))"
proof (cases "calculation_required c [''forces'']")
  case rf: True
  show ?thesis
  proof (cases "calculation_required c [''energy'']")
    case True
    from make_results_dict_neither [OF c True rf] True rf show ?thesis
      by (simp add: keys_def)
  next
    case False
    with cached_energy obtain e where e: "calc_get_potential_energy c = Inr e" by blast
    from make_results_dict_energy [OF c False e rf] False rf e show ?thesis
      by (simp add: keys_def)
  qed
next
  case nf: False
  with cached_forces obtain f where f: "calc_get_forces c = Inr f" by blast
  show ?thesis
  proof (cases "calculation_required c [''energy'']")
    case True
    from make_results_dict_forces [OF c True nf f] True nf f show ?thesis
      by (auto simp: keys_def bind_eq_Inr py_max_Inr)
  next
    case False
    with cached_energy obtain e where e: "calc_get_potential_energy c = Inr e" by blast
    from make_results_dict_both [OF c False e nf f] False nf e f show ?thesis
      by (auto simp: keys_def bind_eq_Inr py_max_Inr)
  qed
qed


text \<open>On carbon monoxide with its oxygen fixed, the stored forces keep the force on the
  oxygen, and \<^verbatim>\<open>fmax\<close> is taken after the constraint has removed it.\<close>

lemma carbon_monoxide_results:
  "make_results_dict example_library carbon_monoxide =
     ([''energy'', ''forces'', ''forces''],
      Inr [(''energy'', PFloat (- 14.2)),
           (''forces'', forces_tolist [(0, 0, 0.1), (0, 0.2, - 0.3)]),
           (''fmax'', PFloat 0.1)])"
proof -
  have c: "calc carbon_monoxide = Some (Engine finished_engine)"
    by (simp add: carbon_monoxide_def)
  show ?thesis
    by (subst make_results_dict_both [OF c, of "- 14.2" "[(0, 0, 0.1), (0, 0.2, - 0.3)]"])
       (simp_all add: finished_engine_def flatten_def constrained_forces_def
         carbon_monoxide_def example_library_def zero3_def)
qed

theorem results_read_from_cache_witness:
  "calc carbon_monoxide = Some (Engine finished_engine) \<and>
   \<not> calculation_required (Engine finished_engine) [''energy''] \<and>
   \<not> calculation_required (Engine finished_engine) [''forces''] \<and>
   make_results_dict example_library carbon_monoxide =
     ([''energy'', ''forces'', ''forces''],
      Inr [(''energy'', PFloat (- 14.2)),
           (''forces'', forces_tolist [(0, 0, 0.1), (0, 0.2, - 0.3)]),
           (''fmax'', PFloat 0.1)])"
proof -
  have c: "calc carbon_monoxide = Some (Engine finished_engine)"
    by (simp add: carbon_monoxide_def)
  from results_read_from_cache [OF c, of example_library] c carbon_monoxide_results
  show ?thesis by (simp add: finished_engine_def)
qed

section \<open>The atoms sub-document\<close>

lemma atom_dicts_computed_Inr:
  assumes len: "length as \<le> length ms"
  shows "atom_dicts_computed as ms =
           Inr (map (\<lambda>(i, a). atom_dict i a (ms ! i)) (enumerate 0 as))"
proof -
  have "traverse (\<lambda>(i, a). if i < length ms then Inr (atom_dict i a (ms ! i)) else Inl IndexError)
          (map (\<lambda>p. p) (enumerate 0 as))
        = Inr (map (\<lambda>(i, a). atom_dict i a (ms ! i)) (enumerate 0 as))"
    by (rule traverse_map_Inr) (use len in \<open>auto simp: in_set_enumerate_eq\<close>)
  then show ?thesis
    by (simp add: atom_dicts_computed_def)
qed

lemma atom_dicts_computed_short:
  assumes "length ms < length as"
  shows "atom_dicts_computed as ms \<noteq> Inr ads"
proof -
  let ?f = "\<lambda>(i, a). if i < length ms then Inr (atom_dict i a (ms ! i)) else Inl IndexError"
  have "(length ms, as ! length ms) \<in> set (enumerate 0 as)"
    using assms by (simp add: in_set_enumerate_eq)
  moreover have "?f (length ms, as ! length ms) = Inl IndexError" by simp
  ultimately obtain e where "traverse ?f (enumerate 0 as) = Inl e"
    using traverse_rejects [of "(length ms, as ! length ms)" "enumerate 0 as" ?f IndexError]
    by blast
  then show ?thesis by (simp add: atom_dicts_computed_def)
qed

lemma map_enumerate_same:
  "(\<And>i. i < length as \<Longrightarrow> g i (as ! i) = h i (as ! i)) \<Longrightarrow>
   map (\<lambda>(i, a). g i a) (enumerate 0 as) = map (\<lambda>(i, a). h i a) (enumerate 0 as)"
  by (auto simp: in_set_enumerate_eq)

lemma atom_dicts_computed_static:
  assumes c: "atom_dicts_computed as ms = Inr ads"
    and same: "\<And>i. i < length as \<Longrightarrow> ms ! i = magmom (as ! i)"
  shows "ads = atom_dicts_static as"
proof -
  have len: "length as \<le> length ms"
    using atom_dicts_computed_short [of ms as ads] c by (cases "length ms < length as") auto
  from atom_dicts_computed_Inr [OF len] c
  have "ads = map (\<lambda>(i, a). atom_dict i a (ms ! i)) (enumerate 0 as)" by simp
  also have "\<dots> = map (\<lambda>(i, a). atom_dict i a (magmom a)) (enumerate 0 as)"
    by (rule map_enumerate_same) (simp add: same)
  finally show ?thesis by (simp add: atom_dicts_static_def)
qed

lemma atoms_dict_try_static:
  assumes t: "atoms_dict_try L s = Inr d"
    and same: "\<And>ms i. get_magnetic_moments s = Inr ms \<Longrightarrow> i < length (atoms s) \<Longrightarrow>
                 ms ! i = magmom (atoms s ! i)"
  shows "d = atoms_dict_init L s (atom_dicts_static (atoms s))"
proof (cases "get_magnetic_moments s")
  case (Inl e)
  with t show ?thesis
    by (simp add: atoms_dict_try_def split: if_splits)
next
  case (Inr ms)
  show ?thesis
  proof (cases "atom_dicts_computed (atoms s) ms")
    case (Inl e)
    with Inr t show ?thesis
      by (simp add: atoms_dict_try_def split: if_splits)
  next
    case ads: (Inr ads)
    from atom_dicts_computed_static [OF ads] same [OF Inr]
    have "ads = atom_dicts_static (atoms s)" by blast
    with Inr ads t show ?thesis
      by (simp add: atoms_dict_try_def)
  qed
qed

lemma make_atoms_dict_primary:
  assumes "make_atoms_dict L s = Inr d"
  shows "\<exists>d0. atoms_dict_try L s = Inr d0 \<and>
           map_of d ''atoms'' = map_of d0 ''atoms'' \<and> map_of d ''cell'' = map_of d0 ''cell'' \<and>
           map_of d ''pbc'' = map_of d0 ''pbc'' \<and> map_of d ''info'' = map_of d0 ''info'' \<and>
           map_of d ''constraints'' = map_of d0 ''constraints''"
  using assms unfolding make_atoms_dict_def
  by (auto simp: bind_eq_Inr Let_def json_loads_encode_def update_conv' split: if_splits)


lemma atoms_dict_try_shape:
  "atoms_dict_try L s = Inr d0 \<Longrightarrow> \<exists>ads. d0 = atoms_dict_init L s ads"
  unfolding atoms_dict_try_def
  by (auto simp: bind_eq_Inr split: sum.splits if_splits)

lemma make_atoms_dict_eq:
  assumes t: "atoms_dict_try L s = Inr (atoms_dict_init L s ads)"
    and sp: "get_scaled_positions L (geometry s) = Inr sp"
    and g: "get_spacegroup L (transpose3 (cell s), sp, get_atomic_numbers L (atoms s)) = Inr g"
  shows "make_atoms_dict L s =
     Inr (atoms_dict_init L s ads @
          [(''natoms'', PInt (int (length (atoms s)))),
           (''mass'', PFloat (sum_list (get_masses L (atoms s)))),
           (''spacegroup'', g),
           (''chemical_symbols'', PList (map PStr (remdups (map symbol (atoms s))))),
           (''symbol_counts'',
            PDict (map (\<lambda>sym. (sym, PInt (int (count_list (map symbol (atoms s)) sym))))
                     (remdups (map symbol (atoms s)))))] @
          (if 0 < linalg_det L (cell s) then [(''volume'', PFloat (get_volume L (cell s)))]
           else []))"
  unfolding make_atoms_dict_def make_spglib_cell_from_atoms_def
  by (simp add: t sp g Let_def json_loads_encode_def atoms_dict_init_def)


section \<open>Decoding an encoded document\<close>

lemma forces_tolist_not_None [simp]: "forces_tolist f \<noteq> PNone"
  by (simp add: forces_tolist_def)

lemma results_decode:
  assumes r: "snd (make_results_dict L s) = Inr rd"
  shows "new_SinglePointCalculator (dict_get rd ''energy'') (dict_get rd ''forces'')
           (dict_get rd ''stress'') = Inr (held_results s)"
proof (cases "calc s")
  case None
  with r show ?thesis
    by (simp add: make_results_dict_None new_SinglePointCalculator_def optional_def dict_get_def
        held_results_def held_energy_def held_forces_def)
next
  case (Some c)
  show ?thesis
  proof (cases "calculation_required c [''forces'']")
    case rf: True
    show ?thesis
    proof (cases "calculation_required c [''energy'']")
      case True
      from make_results_dict_neither [OF Some True rf] r Some True rf show ?thesis
        by (simp add: new_SinglePointCalculator_def optional_def dict_get_def
            held_results_def held_energy_def held_forces_def)
    next
      case False
      with cached_energy obtain e where e: "calc_get_potential_energy c = Inr e" by blast
      from make_results_dict_energy [OF Some False e rf] r Some False rf e show ?thesis
        by (auto simp: new_SinglePointCalculator_def optional_def dict_get_def
            held_results_def held_energy_def held_forces_def)
    qed
  next
    case nf: False
    with cached_forces obtain f where f: "calc_get_forces c = Inr f" by blast
    show ?thesis
    proof (cases "calculation_required c [''energy'']")
      case True
      from make_results_dict_forces [OF Some True nf f] r Some True nf f show ?thesis
        by (auto simp: new_SinglePointCalculator_def optional_def dict_get_def bind_eq_Inr
            held_results_def held_energy_def held_forces_def)
    next
      case False
      with cached_energy obtain e where e: "calc_get_potential_energy c = Inr e" by blast
      from make_results_dict_both [OF Some False e nf f] r Some False nf e f show ?thesis
        by (auto simp: new_SinglePointCalculator_def optional_def dict_get_def bind_eq_Inr
            held_results_def held_energy_def held_forces_def)
    qed
  qed
qed

lemma traverse_factory:
  assumes "\<forall>c \<in> set cs. dict2constraint L (todict L c) = Inr c"
  shows "traverse (dict2constraint L) (map (todict L) cs) = Inr cs"
  using traverse_map_Inr [of cs "dict2constraint L" "todict L" "\<lambda>c. c"] assms by simp

lemma decode_of_encode:
  assumes ad: "make_atoms_dict L s = Inr ad"
    and rd: "snd (make_results_dict L s) = Inr rd"
    and a: "map_of doc ''atoms'' = Some (PDict ad)"
    and r: "map_of doc ''results'' = Some (PDict rd)"
    and same: "\<forall>ms. get_magnetic_moments s = Inr ms \<longrightarrow>
                 (\<forall>i < length (atoms s). ms ! i = magmom (atoms s ! i))"
    and fac: "\<forall>c \<in> set (constraints s). dict2constraint L (todict L c) = Inr c"
  shows "make_atoms_from_doc L (PDict doc) =
           Inr \<lparr>atoms = atoms s, cell = cell s, pbc = pbc s, info = info s,
                constraints = constraints s, calc = Some (held_results s)\<rparr>"
proof -
  from make_atoms_dict_primary [OF ad] obtain d0
    where t: "atoms_dict_try L s = Inr d0"
      and keys: "map_of ad ''atoms'' = map_of d0 ''atoms''"
        "map_of ad ''cell'' = map_of d0 ''cell''" "map_of ad ''pbc'' = map_of d0 ''pbc''"
        "map_of ad ''info'' = map_of d0 ''info''"
        "map_of ad ''constraints'' = map_of d0 ''constraints''"
    by blast
  from atoms_dict_try_static [OF t] same
  have d0: "d0 = atoms_dict_init L s (atom_dicts_static (atoms s))" by blast
  from keys d0 have look:
    "map_of ad ''atoms'' = Some (PList (atom_dicts_static (atoms s)))"
    "map_of ad ''cell'' = Some (cell_json (cell s))"
    "map_of ad ''pbc'' = Some (pbc_json (pbc s))"
    "map_of ad ''info'' = Some (PDict (info s))"
    "map_of ad ''constraints'' = Some (PList (map (todict L) (constraints s)))"
    by (simp_all add: atoms_dict_init_def)
  show ?thesis
    unfolding make_atoms_from_doc_def
    by (simp add: a r look traverse_atom_dicts_static traverse_factory [OF fac] cell_json_def
        Atoms_from_list_def results_decode [OF rd])
qed


text \<open>Encoding again the structure that decoding returns.\<close>

lemma reencode_atoms_dict:
  assumes ad: "make_atoms_dict L s = Inr ad"
    and same: "\<forall>ms. get_magnetic_moments s = Inr ms \<longrightarrow>
                 (\<forall>i < length (atoms s). ms ! i = magmom (atoms s ! i))"
    and geom: "atoms s' = atoms s" "cell s' = cell s" "pbc s' = pbc s" "info s' = info s"
      "constraints s' = constraints s"
    and c: "calc s' = Some (held_results s)"
  shows "make_atoms_dict L s' = Inr ad"
proof -
  from ad obtain d0 where t: "atoms_dict_try L s = Inr d0"
    unfolding make_atoms_dict_def by (auto simp: bind_eq_Inr)
  from atoms_dict_try_static [OF t] same
  have d0: "d0 = atoms_dict_init L s (atom_dicts_static (atoms s))" by blast
  have "atoms_dict_try L s' = Inr (atoms_dict_init L s' (atom_dicts_static (atoms s')))"
    by (simp add: atoms_dict_try_def get_magnetic_moments_def c held_results_def)
  also have "atoms_dict_init L s' (atom_dicts_static (atoms s')) = d0"
    by (simp add: d0 atoms_dict_init_def geom)
  finally have t': "atoms_dict_try L s' = atoms_dict_try L s"
    by (simp add: t)
  have "make_atoms_dict L s' = make_atoms_dict L s"
    unfolding make_atoms_dict_def make_spglib_cell_from_atoms_def geometry_def
    by (simp add: geom t')
  with ad show ?thesis by simp
qed

lemma constrained_forces_cong:
  "atoms s' = atoms s \<Longrightarrow> cell s' = cell s \<Longrightarrow> pbc s' = pbc s \<Longrightarrow>
   constraints s' = constraints s \<Longrightarrow> constrained_forces L s' f = constrained_forces L s f"
  by (simp add: constrained_forces_def geometry_def)

lemma reencode_results:
  assumes rd: "snd (make_results_dict L s) = Inr rd"
    and geom: "atoms s' = atoms s" "cell s' = cell s" "pbc s' = pbc s"
      "constraints s' = constraints s"
    and c': "calc s' = Some (held_results s)"
  shows "snd (make_results_dict L s') = Inr rd"
proof -
  note cf = constrained_forces_cong [OF geom]
  show ?thesis
  proof (cases "calc s")
    case None
    then have h: "held_results s = SinglePointCalculator None None None"
      by (simp add: held_results_def held_energy_def held_forces_def)
    from rd None have "rd = []" by (simp add: make_results_dict_None)
    moreover have "make_results_dict L s' = ([], Inr [])"
      by (rule make_results_dict_neither [OF c']) (simp_all add: h)
    ultimately show ?thesis by simp
  next
    case (Some c)
    show ?thesis
    proof (cases "calculation_required c [''forces'']")
      case rf: True
      show ?thesis
      proof (cases "calculation_required c [''energy'']")
        case True
        with rf Some have h: "held_results s = SinglePointCalculator None None None"
          by (simp add: held_results_def held_energy_def held_forces_def)
        from make_results_dict_neither [OF Some True rf] rd have "rd = []" by simp
        moreover have "make_results_dict L s' = ([], Inr [])"
          by (rule make_results_dict_neither [OF c']) (simp_all add: h)
        ultimately show ?thesis by simp
      next
        case False
        with cached_energy obtain e where e: "calc_get_potential_energy c = Inr e" by blast
        with rf Some False have h: "held_results s = SinglePointCalculator (Some e) None None"
          by (simp add: held_results_def held_energy_def held_forces_def)
        from make_results_dict_energy [OF Some False e rf] rd
        have "rd = [(''energy'', PFloat e)]" by simp
        moreover have "make_results_dict L s' = ([''energy''], Inr [(''energy'', PFloat e)])"
          by (rule make_results_dict_energy [OF c']) (simp_all add: h)
        ultimately show ?thesis by simp
      qed
    next
      case nf: False
      with cached_forces obtain f where f: "calc_get_forces c = Inr f" by blast
      show ?thesis
      proof (cases "calculation_required c [''energy'']")
        case True
        with nf Some f have h: "held_results s = SinglePointCalculator None (Some f) None"
          by (simp add: held_results_def held_energy_def held_forces_def)
        have "make_results_dict L s' =
                ([''forces'', ''forces''],
                 bind (py_max (map abs (flatten (constrained_forces L s' f)))) (\<lambda>m.
                   Inr [(''forces'', forces_tolist f), (''fmax'', PFloat m)]))"
          by (rule make_results_dict_forces [OF c']) (simp_all add: h)
        with make_results_dict_forces [OF Some True nf f, of L] rd show ?thesis
          by (simp add: cf)
      next
        case False
        with cached_energy obtain e where e: "calc_get_potential_energy c = Inr e" by blast
        with nf Some f False
        have h: "held_results s = SinglePointCalculator (Some e) (Some f) None"
          by (simp add: held_results_def held_energy_def held_forces_def)
        have "make_results_dict L s' =
                ([''energy'', ''forces'', ''forces''],
                 bind (py_max (map abs (flatten (constrained_forces L s' f)))) (\<lambda>m.
                   Inr [(''energy'', PFloat e), (''forces'', forces_tolist f),
                        (''fmax'', PFloat m)]))"
          by (rule make_results_dict_both [OF c']) (simp_all add: h)
        with make_results_dict_both [OF Some False e nf f, of L] rd show ?thesis
          by (simp add: cf)
      qed
    qed
  qed
qed

lemma reencode_calculator:
  "calc s' = Some (held_results s) \<Longrightarrow>
   make_calculator_dict L s' =
     Inr [(''calculator'',
           PDict [(''module'', PStr ''ase.calculators.singlepoint''),
                  (''class'', PStr ''SinglePointCalculator'')])]"
  by (simp add: make_calculator_dict_def calc_todict_def calc_module_def calc_class_def
      held_results_def)

lemma decode_ignores_derived:
  assumes a: "map_of doc ''atoms'' = Some (PDict ad)"
    and key: "key \<notin> {''atoms'', ''cell'', ''pbc'', ''info'', ''constraints''}"
  shows "make_atoms_from_doc L
           (PDict (AList.update ''atoms'' (PDict (AList.update key v ad)) doc)) =
         make_atoms_from_doc L (PDict doc)"
proof -
  have k: "map_of (AList.update key v ad) x = map_of ad x"
    if "x \<in> {''atoms'', ''cell'', ''pbc'', ''info'', ''constraints''}" for x
    using that key by (auto simp: update_conv')
  have l: "map_of (AList.update ''atoms'' (PDict (AList.update key v ad)) doc) ''results'' =
             map_of doc ''results''"
    by (simp add: update_conv')
  have m: "map_of (AList.update ''atoms'' (PDict (AList.update key v ad)) doc) ''atoms'' =
             Some (PDict (AList.update key v ad))"
    by (simp add: update_conv')
  show ?thesis
    unfolding make_atoms_from_doc_def
    by (simp add: a k l m)
qed

text \<open>Carbon monoxide with a finished run encodes.\<close>

lemma carbon_monoxide_try:
  "atoms_dict_try example_library carbon_monoxide =
     Inr (atoms_dict_init example_library carbon_monoxide
            (atom_dicts_static (atoms carbon_monoxide)))"
proof -
  have m: "get_magnetic_moments carbon_monoxide = Inr [0, 0]"
    by (simp add: get_magnetic_moments_def carbon_monoxide_def finished_engine_def)
  have "atom_dicts_computed (atoms carbon_monoxide) [0, 0] =
          Inr (map (\<lambda>(i, a). atom_dict i a ([0, 0] ! i)) (enumerate 0 (atoms carbon_monoxide)))"
    by (rule atom_dicts_computed_Inr) (simp add: carbon_monoxide_def Atoms_def)
  also have "map (\<lambda>(i, a). atom_dict i a ([0, 0] ! i)) (enumerate 0 (atoms carbon_monoxide)) =
             atom_dicts_static (atoms carbon_monoxide)"
    by (simp add: atom_dicts_static_def carbon_monoxide_def Atoms_def new_atom_def)
  finally show ?thesis
    by (simp add: atoms_dict_try_def m)
qed



lemma carbon_monoxide_atoms_dict:
  "\<exists>ad. make_atoms_dict example_library carbon_monoxide = Inr ad"
proof -
  have sp: "get_scaled_positions example_library (geometry carbon_monoxide) =
              Inr (map position (atoms carbon_monoxide))"
    by (simp add: example_library_def geometry_def example_scaled_positions_def
        carbon_monoxide_def unit_cell_def det3_def)
  have g: "get_spacegroup example_library
             (transpose3 (cell carbon_monoxide), map position (atoms carbon_monoxide),
              get_atomic_numbers example_library (atoms carbon_monoxide)) = Inr (PStr ''P1 (1)'')"
    by (simp add: example_library_def)
  from make_atoms_dict_eq [OF carbon_monoxide_try sp g] show ?thesis by blast
qed

lemma carbon_monoxide_moments:
  "get_magnetic_moments carbon_monoxide = Inr [0, 0] \<and>
   map magmom (atoms carbon_monoxide) = [0, 0]"
  by (simp add: get_magnetic_moments_def carbon_monoxide_def finished_engine_def Atoms_def
      new_atom_def)

lemma carbon_monoxide_same:
  "\<forall>ms. get_magnetic_moments carbon_monoxide = Inr ms \<longrightarrow>
     (\<forall>i < length (atoms carbon_monoxide). ms ! i = magmom (atoms carbon_monoxide ! i))"
  by (auto simp: get_magnetic_moments_def carbon_monoxide_def finished_engine_def Atoms_def
      new_atom_def less_Suc_eq)

lemma carbon_monoxide_factory:
  "\<forall>c \<in> set (constraints carbon_monoxide).
     dict2constraint example_library (todict example_library c) = Inr c"
  by (simp add: carbon_monoxide_def example_library_def constraint_of_dict_def
      known_kinds_def call_with_kwargs_def new_FixAtoms_def keys_def dict_get_def)

lemma carbon_monoxide_calculator_dict:
  "make_calculator_dict example_library carbon_monoxide =
     Inr [(''calculator'',
           PDict [(''kpts'', PList [PInt 4, PInt 4, PInt 1]), (''module'', PStr ''vasp''),
                  (''class'', PStr ''Vasp'')])]"
  by (simp add: make_calculator_dict_def carbon_monoxide_def calc_todict_def
      finished_engine_def calc_module_def calc_class_def)

lemma carbon_monoxide_encodes:
  "\<exists>doc w'. make_doc_from_atoms example_library w carbon_monoxide [] = Inr (doc, w')"
proof -
  from carbon_monoxide_atoms_dict obtain ad
    where ad: "make_atoms_dict example_library carbon_monoxide = Inr ad" ..
  have rd: "snd (make_results_dict example_library carbon_monoxide) =
              Inr [(''energy'', PFloat (- 14.2)),
                   (''forces'', forces_tolist [(0, 0, 0.1), (0, 0.2, - 0.3)]),
                   (''fmax'', PFloat 0.1)]"
    by (simp add: carbon_monoxide_results)
  from make_doc_from_atoms_success [OF ad carbon_monoxide_calculator_dict rd, of w "[]"]
  show ?thesis by (intro exI)
qed

text \<open>
  C1: let a structure be encoded without extra fields that override \<^verbatim>\<open>atoms\<close> or
  \<^verbatim>\<open>results\<close>, let its computed magnetic moments, if it has any, equal the static
  ones, and let the constraint factory give back every constraint of the structure from
  its dictionary. Then decoding the document returns a structure with the same atoms in
  the same order (so with the same indices; the stored list is the one of the static
  path, each entry with its index), the same cell, pbc, info and constraints. The
  decoder reads no derived field: storing any value under any other key of the
  \<^verbatim>\<open>atoms\<close> sub-document leaves the decoded structure unchanged. And encoding the
  decoded structure again returns a document with the same \<^verbatim>\<open>atoms\<close>, \<^verbatim>\<open>cell\<close>,
  \<^verbatim>\<open>pbc\<close>, \<^verbatim>\<open>info\<close>, \<^verbatim>\<open>constraints\<close> and \<^verbatim>\<open>results\<close>.
\<close>

theorem encode_decode_round_trip:
  assumes enc: "make_doc_from_atoms L w s kwargs = Inr (doc, w')"
    and kw: "''atoms'' \<notin> set (keys kwargs)" "''results'' \<notin> set (keys kwargs)"
    and same: "\<forall>ms. get_magnetic_moments s = Inr ms \<longrightarrow>
                 (\<forall>i < length (atoms s). ms ! i = magmom (atoms s ! i))"
    and fac: "\<forall>c \<in> set (constraints s). dict2constraint L (todict L c) = Inr c"
  shows "\<exists>s' ad.
           make_atoms_from_doc L (PDict doc) = Inr s' \<and>
           atoms s' = atoms s \<and> cell s' = cell s \<and> pbc s' = pbc s \<and> info s' = info s \<and>
           constraints s' = constraints s \<and>
           map_of doc ''atoms'' = Some (PDict ad) \<and>
           map_of ad ''atoms'' = Some (PList (atom_dicts_static (atoms s))) \<and>
           (\<forall>key v. key \<notin> {''atoms'', ''cell'', ''pbc'', ''info'', ''constraints''} \<longrightarrow>
              make_atoms_from_doc L
                (PDict (AList.update ''atoms'' (PDict (AList.update key v ad)) doc)) = Inr s') \<and>
           (\<forall>w2 kw2. ''atoms'' \<notin> set (keys kw2) \<and> ''results'' \<notin> set (keys kw2) \<longrightarrow>
              (\<exists>doc2 w3 ad2.
                 make_doc_from_atoms L w2 s' kw2 = Inr (doc2, w3) \<and>
                 map_of doc2 ''atoms'' = Some (PDict ad2) \<and>
                 map_of ad2 ''atoms'' = map_of ad ''atoms'' \<and>
                 map_of ad2 ''cell'' = map_of ad ''cell'' \<and>
                 map_of ad2 ''pbc'' = map_of ad ''pbc'' \<and>
                 map_of ad2 ''info'' = map_of ad ''info'' \<and>
                 map_of ad2 ''constraints'' = map_of ad ''constraints'' \<and>
                 map_of doc2 ''results'' = map_of doc ''results''))"
proof -
  from make_doc_from_atoms_Inr [OF enc] kw obtain ad rd
    where ad: "make_atoms_dict L s = Inr ad"
      and rd: "snd (make_results_dict L s) = Inr rd"
      and a: "map_of doc ''atoms'' = Some (PDict ad)"
      and r: "map_of doc ''results'' = Some (PDict rd)"
    by (auto simp: map_of_dict_update_other)
  define s' where "s' = \<lparr>atoms = atoms s, cell = cell s, pbc = pbc s, info = info s,
    constraints = constraints s, calc = Some (held_results s)\<rparr>"
  have dec: "make_atoms_from_doc L (PDict doc) = Inr s'"
    unfolding s'_def by (rule decode_of_encode [OF ad rd a r same fac])
  have geom: "atoms s' = atoms s" "cell s' = cell s" "pbc s' = pbc s" "info s' = info s"
    "constraints s' = constraints s" and c': "calc s' = Some (held_results s)"
    by (simp_all add: s'_def)
  from make_atoms_dict_primary [OF ad] obtain d0
    where t: "atoms_dict_try L s = Inr d0" and k: "map_of ad ''atoms'' = map_of d0 ''atoms''"
    by blast
  from atoms_dict_try_static [OF t] same
  have "d0 = atoms_dict_init L s (atom_dicts_static (atoms s))" by blast
  with k have stored: "map_of ad ''atoms'' = Some (PList (atom_dicts_static (atoms s)))"
    by (simp add: atoms_dict_init_def)
  have derived: "make_atoms_from_doc L
      (PDict (AList.update ''atoms'' (PDict (AList.update key v ad)) doc)) = Inr s'"
    if "key \<notin> {''atoms'', ''cell'', ''pbc'', ''info'', ''constraints''}" for key v
    by (subst decode_ignores_derived [OF a that]) (rule dec)
  have again: "\<exists>doc2 w3 ad2.
      make_doc_from_atoms L w2 s' kw2 = Inr (doc2, w3) \<and>
      map_of doc2 ''atoms'' = Some (PDict ad2) \<and>
      map_of ad2 ''atoms'' = map_of ad ''atoms'' \<and>
      map_of ad2 ''cell'' = map_of ad ''cell'' \<and>
      map_of ad2 ''pbc'' = map_of ad ''pbc'' \<and>
      map_of ad2 ''info'' = map_of ad ''info'' \<and>
      map_of ad2 ''constraints'' = map_of ad ''constraints'' \<and>
      map_of doc2 ''results'' = map_of doc ''results''"
    if "''atoms'' \<notin> set (keys kw2) \<and> ''results'' \<notin> set (keys kw2)" for w2 kw2
  proof -
    note ad' = reencode_atoms_dict [OF ad same geom c']
    note rd' = reencode_results [OF rd geom(1,2,3,5) c']
    note cd' = reencode_calculator [OF c', of L]
    let ?base = "[(''atoms'', PDict ad),
                  (''calc'', PDict [(''calculator'',
                     PDict [(''module'', PStr ''ase.calculators.singlepoint''),
                            (''class'', PStr ''SinglePointCalculator'')])]),
                  (''results'', PDict rd),
                  (''user'', getenv_USER w2), (''ctime'', PDatetime (clock w2 (ticks w2))),
                  (''mtime'', PDatetime (clock w2 (ticks w2 + 1)))]"
    have e: "make_doc_from_atoms L w2 s' kw2 =
               Inr (dict_update ?base kw2, w2\<lparr>ticks := ticks w2 + 2\<rparr>)"
      by (rule make_doc_from_atoms_success [OF ad' cd' rd'])
    have la: "map_of (dict_update ?base kw2) ''atoms'' = Some (PDict ad)"
      using that by (subst map_of_dict_update_other) simp_all
    have lr: "map_of (dict_update ?base kw2) ''results'' = map_of doc ''results''"
      using that r by (subst map_of_dict_update_other) simp_all
    from e la lr show ?thesis by simp
  qed
  have "make_atoms_from_doc L (PDict doc) = Inr s' \<and>
        atoms s' = atoms s \<and> cell s' = cell s \<and> pbc s' = pbc s \<and> info s' = info s \<and>
        constraints s' = constraints s \<and>
        map_of doc ''atoms'' = Some (PDict ad) \<and>
        map_of ad ''atoms'' = Some (PList (atom_dicts_static (atoms s))) \<and>
        (\<forall>key v. key \<notin> {''atoms'', ''cell'', ''pbc'', ''info'', ''constraints''} \<longrightarrow>
           make_atoms_from_doc L
             (PDict (AList.update ''atoms'' (PDict (AList.update key v ad)) doc)) = Inr s') \<and>
        (\<forall>w2 kw2. ''atoms'' \<notin> set (keys kw2) \<and> ''results'' \<notin> set (keys kw2) \<longrightarrow>
           (\<exists>doc2 w3 ad2.
              make_doc_from_atoms L w2 s' kw2 = Inr (doc2, w3) \<and>
              map_of doc2 ''atoms'' = Some (PDict ad2) \<and>
              map_of ad2 ''atoms'' = map_of ad ''atoms'' \<and>
              map_of ad2 ''cell'' = map_of ad ''cell'' \<and>
              map_of ad2 ''pbc'' = map_of ad ''pbc'' \<and>
              map_of ad2 ''info'' = map_of ad ''info'' \<and>
              map_of ad2 ''constraints'' = map_of ad ''constraints'' \<and>
              map_of doc2 ''results'' = map_of doc ''results''))"
    by (intro conjI allI impI; (rule dec geom a stored | erule derived | erule again))
  then show ?thesis
    by (intro exI [of _ s'] exI [of _ ad])
qed



theorem encode_decode_round_trip_witness:
  "get_magnetic_moments carbon_monoxide = Inr [0, 0] \<and>
   map magmom (atoms carbon_monoxide) = [0, 0] \<and>
   constraint_of_dict (constraint_todict (FixAtoms [1])) = Inr (FixAtoms [1]) \<and>
   (\<exists>doc w' s'.
      make_doc_from_atoms example_library frozen carbon_monoxide [] = Inr (doc, w') \<and>
      make_atoms_from_doc example_library (PDict doc) = Inr s' \<and>
      atoms s' = atoms carbon_monoxide \<and> constraints s' = constraints carbon_monoxide)"
proof -
  from carbon_monoxide_encodes obtain doc w'
    where enc: "make_doc_from_atoms example_library frozen carbon_monoxide [] = Inr (doc, w')"
    by blast
  have kw: "''atoms'' \<notin> set (keys [])" "''results'' \<notin> set (keys [])"
    by (simp_all add: keys_def)
  from encode_decode_round_trip [OF enc kw carbon_monoxide_same carbon_monoxide_factory]
  have "\<exists>s'. make_atoms_from_doc example_library (PDict doc) = Inr s' \<and>
          atoms s' = atoms carbon_monoxide \<and> constraints s' = constraints carbon_monoxide"
    by (elim exE conjE) (intro exI conjI; assumption)
  then obtain s' where s': "make_atoms_from_doc example_library (PDict doc) = Inr s'"
    "atoms s' = atoms carbon_monoxide" "constraints s' = constraints carbon_monoxide"
    by (elim exE conjE)
  have f: "constraint_of_dict (constraint_todict (FixAtoms [1])) = Inr (FixAtoms [1])"
    by (simp add: constraint_of_dict_def known_kinds_def call_with_kwargs_def
        new_FixAtoms_def keys_def dict_get_def)
  from enc s' have "\<exists>doc w' s'.
      make_doc_from_atoms example_library frozen carbon_monoxide [] = Inr (doc, w') \<and>
      make_atoms_from_doc example_library (PDict doc) = Inr s' \<and>
      atoms s' = atoms carbon_monoxide \<and> constraints s' = constraints carbon_monoxide"
    by (intro exI conjI)
  with carbon_monoxide_moments f show ?thesis by (intro conjI) simp_all
qed

section \<open>The keys of the results sub-document\<close>

lemma results_keys_shape:
  assumes "snd (make_results_dict L s) = Inr r"
  shows "keys r \<in> {[], [''energy''], [''forces'', ''fmax''], [''energy'', ''forces'', ''fmax'']}"
proof (cases "calc s")
  case None
  with assms show ?thesis
    by (simp add: make_results_dict_None keys_def)
next
  case (Some c)
  show ?thesis
  proof (cases "calculation_required c [''forces'']")
    case rf: True
    show ?thesis
    proof (cases "calculation_required c [''energy'']")
      case True
      from make_results_dict_neither [OF Some True rf] assms show ?thesis
        by (simp add: keys_def)
    next
      case False
      with cached_energy obtain e where e: "calc_get_potential_energy c = Inr e" by blast
      from make_results_dict_energy [OF Some False e rf] assms show ?thesis
        by (auto simp: keys_def)
    qed
  next
    case nf: False
    with cached_forces obtain f where f: "calc_get_forces c = Inr f" by blast
    show ?thesis
    proof (cases "calculation_required c [''energy'']")
      case True
      from make_results_dict_forces [OF Some True nf f] assms show ?thesis
        by (auto simp: keys_def bind_eq_Inr)
    next
      case False
      with cached_energy obtain e where e: "calc_get_potential_energy c = Inr e" by blast
      from make_results_dict_both [OF Some False e nf f] assms show ?thesis
        by (auto simp: keys_def bind_eq_Inr)
    qed
  qed
qed

lemma map_of_None_keys: "k \<notin> set (keys d) \<Longrightarrow> map_of d k = None"
  by (simp add: keys_def map_of_eq_None_iff)

text \<open>
  C10: in every document that the encoder returns (the extra fields not overriding
  \<^verbatim>\<open>results\<close>), the keys of \<^verbatim>\<open>results\<close> are none, \<^verbatim>\<open>energy\<close> alone,
  \<^verbatim>\<open>forces\<close> with \<^verbatim>\<open>fmax\<close>, or all three; \<^verbatim>\<open>fmax\<close> is there exactly when
  \<^verbatim>\<open>forces\<close> is, \<^verbatim>\<open>stress\<close> never; and every structure decoded from the document
  carries a calculator without stress.
\<close>

theorem results_keys:
  assumes enc: "make_doc_from_atoms L w s kwargs = Inr (doc, w')"
    and kw: "''results'' \<notin> set (keys kwargs)"
  shows "\<exists>r. map_of doc ''results'' = Some (PDict r) \<and>
             snd (make_results_dict L s) = Inr r \<and>
             keys r \<in> {[], [''energy''], [''forces'', ''fmax''],
                        [''energy'', ''forces'', ''fmax'']} \<and>
             (''fmax'' \<in> set (keys r) \<longleftrightarrow> ''forces'' \<in> set (keys r)) \<and>
             ''stress'' \<notin> set (keys r) \<and>
             (\<forall>s'. make_atoms_from_doc L (PDict doc) = Inr s' \<longrightarrow>
                (\<exists>e f. calc s' = Some (SinglePointCalculator e f None)))"
proof -
  from make_doc_from_atoms_Inr [OF enc] kw obtain r
    where r: "snd (make_results_dict L s) = Inr r"
      and d: "map_of doc ''results'' = Some (PDict r)"
    by (auto simp: map_of_dict_update_other)
  note shape = results_keys_shape [OF r]
  from shape have fm: "''fmax'' \<in> set (keys r) \<longleftrightarrow> ''forces'' \<in> set (keys r)"
    by auto
  from shape have st: "''stress'' \<notin> set (keys r)"
    by auto
  have dec: "\<exists>e f. calc s' = Some (SinglePointCalculator e f None)"
    if "make_atoms_from_doc L (PDict doc) = Inr s'" for s'
    using decode_attaches [OF that] d map_of_None_keys [OF st]
    by (auto simp: dict_get_def optional_def)
  from r d shape fm st dec show ?thesis by blast
qed


theorem results_keys_witness:
  "''results'' \<notin> set (keys []) \<and>
   (\<exists>doc w' r s'.
      make_doc_from_atoms example_library frozen carbon_monoxide [] = Inr (doc, w') \<and>
      map_of doc ''results'' = Some (PDict r) \<and>
      keys r = [''energy'', ''forces'', ''fmax''] \<and>
      make_atoms_from_doc example_library (PDict doc) = Inr s' \<and>
      calc s' = Some (SinglePointCalculator (Some (- 14.2))
                        (Some [(0, 0, 0.1), (0, 0.2, - 0.3)]) None))"
proof -
  from carbon_monoxide_encodes obtain doc w'
    where enc: "make_doc_from_atoms example_library frozen carbon_monoxide [] = Inr (doc, w')"
    by blast
  have kw: "''results'' \<notin> set (keys [])"
    by (simp add: keys_def)
  from results_keys [OF enc kw]
  have "\<exists>r. map_of doc ''results'' = Some (PDict r) \<and>
          snd (make_results_dict example_library carbon_monoxide) = Inr r"
    by (elim exE conjE) (intro exI conjI; assumption)
  then obtain r
    where r: "map_of doc ''results'' = Some (PDict r)"
      and rd: "snd (make_results_dict example_library carbon_monoxide) = Inr r"
    by (elim exE conjE)
  from rd have k: "keys r = [''energy'', ''forces'', ''fmax'']"
    by (auto simp: carbon_monoxide_results keys_def)
  from make_doc_from_atoms_Inr [OF enc] obtain ad
    where ad: "make_atoms_dict example_library carbon_monoxide = Inr ad"
      and a: "map_of doc ''atoms'' = Some (PDict ad)"
    by (auto simp: dict_update_def)
  have h: "held_results carbon_monoxide =
             SinglePointCalculator (Some (- 14.2)) (Some [(0, 0, 0.1), (0, 0.2, - 0.3)]) None"
    by (simp add: held_results_def held_energy_def held_forces_def carbon_monoxide_def
        finished_engine_def)
  from decode_of_encode [OF ad rd a r carbon_monoxide_same carbon_monoxide_factory] h
  have d: "make_atoms_from_doc example_library (PDict doc) =
          Inr \<lparr>atoms = atoms carbon_monoxide, cell = cell carbon_monoxide,
               pbc = pbc carbon_monoxide, info = info carbon_monoxide,
               constraints = constraints carbon_monoxide,
               calc = Some (SinglePointCalculator (Some (- 14.2))
                        (Some [(0, 0, 0.1), (0, 0.2, - 0.3)]) None)\<rparr>"
    by simp
  have "\<exists>doc w' r s'.
      make_doc_from_atoms example_library frozen carbon_monoxide [] = Inr (doc, w') \<and>
      map_of doc ''results'' = Some (PDict r) \<and>
      keys r = [''energy'', ''forces'', ''fmax''] \<and>
      make_atoms_from_doc example_library (PDict doc) = Inr s' \<and>
      calc s' = Some (SinglePointCalculator (Some (- 14.2))
                        (Some [(0, 0, 0.1), (0, 0.2, - 0.3)]) None)"
    by (intro exI conjI, rule enc, rule r, rule k, rule d) simp
  with kw show ?thesis by (intro conjI)
qed

section \<open>Volume, magnetic moments and empty structures\<close>

lemma example_library_returns:
  "det3 (cell s) \<noteq> 0 \<or> has_zero_vector (cell s) \<Longrightarrow>
   \<exists>sp g. get_scaled_positions example_library (geometry s) = Inr sp \<and>
     get_spacegroup example_library
       (transpose3 (cell s), sp, get_atomic_numbers example_library (atoms s)) = Inr g"
  by (auto simp: example_library_def example_scaled_positions_def geometry_def)





lemma atom_dict_other_fields:
  "key \<noteq> ''magmom'' \<Longrightarrow> getitem (atom_dict i a m) key = getitem (atom_dict i a m') key"
  by (simp add: atom_dict_def)

lemma atom_dict_magmom: "getitem (atom_dict i a m) ''magmom'' = Inr (PFloat m)"
  by (simp add: atom_dict_def)

text \<open>
  C6: when \<^verbatim>\<open>atoms.get_magnetic_moments()\<close> returns (at least one moment per atom),
  the entry of atom \<open>i\<close> stores the \<open>i\<close>-th computed moment; when it raises a
  RuntimeError, as it does for a structure without calculator, the \<^verbatim>\<open>try\<close> statement
  returns all the same and each entry stores the atom's static moment; the two paths
  write the same value under every key of an entry but \<^verbatim>\<open>'magmom'\<close>; and the list so
  built is the \<^verbatim>\<open>atoms\<close> entry of what \<^verbatim>\<open>_make_atoms_dict\<close> returns.
\<close>

theorem magnetic_moment_fallback:
  "(\<forall>ms. get_magnetic_moments s = Inr ms \<and> length (atoms s) \<le> length ms \<longrightarrow>
      atoms_dict_try L s =
        Inr (atoms_dict_init L s
               (map (\<lambda>(i, a). atom_dict i a (ms ! i)) (enumerate 0 (atoms s))))) \<and>
   (\<forall>e. get_magnetic_moments s = Inl e \<and> isinstance_RuntimeError e \<longrightarrow>
      atoms_dict_try L s =
        Inr (atoms_dict_init L s
               (map (\<lambda>(i, a). atom_dict i a (magmom a)) (enumerate 0 (atoms s))))) \<and>
   (calc s = None \<longrightarrow> get_magnetic_moments s = Inl RuntimeError) \<and>
   (\<forall>i a m m' key. key \<noteq> ''magmom'' \<longrightarrow>
      getitem (atom_dict i a m) key = getitem (atom_dict i a m') key) \<and>
   (\<forall>i a m. getitem (atom_dict i a m) ''magmom'' = Inr (PFloat m)) \<and>
   (\<forall>d. make_atoms_dict L s = Inr d \<longrightarrow>
      (\<exists>d0. atoms_dict_try L s = Inr d0 \<and> map_of d ''atoms'' = map_of d0 ''atoms''))"
proof (intro conjI allI impI)
  fix ms
  assume "get_magnetic_moments s = Inr ms \<and> length (atoms s) \<le> length ms"
  then show "atoms_dict_try L s =
        Inr (atoms_dict_init L s
               (map (\<lambda>(i, a). atom_dict i a (ms ! i)) (enumerate 0 (atoms s))))"
    by (simp add: atoms_dict_try_def atom_dicts_computed_Inr)
next
  fix e
  assume "get_magnetic_moments s = Inl e \<and> isinstance_RuntimeError e"
  then show "atoms_dict_try L s =
        Inr (atoms_dict_init L s
               (map (\<lambda>(i, a). atom_dict i a (magmom a)) (enumerate 0 (atoms s))))"
    by (simp add: atoms_dict_try_def atom_dicts_static_def)
next
  assume "calc s = None"
  then show "get_magnetic_moments s = Inl RuntimeError"
    by (simp add: get_magnetic_moments_def)
next
  fix i a m m' key
  assume "key \<noteq> ''magmom''"
  then show "getitem (atom_dict i a m) key = getitem (atom_dict i a m') key"
    by (rule atom_dict_other_fields)
next
  fix i a m
  show "getitem (atom_dict i a m) ''magmom'' = Inr (PFloat m)"
    by (rule atom_dict_magmom)
next
  fix d
  assume "make_atoms_dict L s = Inr d"
  from make_atoms_dict_primary [OF this]
  show "\<exists>d0. atoms_dict_try L s = Inr d0 \<and> map_of d ''atoms'' = map_of d0 ''atoms''"
    by (elim exE conjE) (intro exI conjI; assumption)
qed

theorem magnetic_moment_fallback_witness:
  "get_magnetic_moments polarised_monoxide = Inr [1.5, 0.25] \<and>
   map magmom (atoms polarised_monoxide) = [0, 0] \<and>
   map_of (case atoms_dict_try example_library polarised_monoxide of Inr d \<Rightarrow> d | Inl e \<Rightarrow> [])
     ''atoms'' =
     Some (PList [atom_dict 0 (new_atom ''C'' (0, 0, 0)) 1.5,
                  atom_dict 1 (new_atom ''O'' (0, 0, 1.2)) 0.25]) \<and>
   calc hydrogen = None \<and>
   get_magnetic_moments hydrogen = Inl RuntimeError \<and>
   map_of (case atoms_dict_try example_library hydrogen of Inr d \<Rightarrow> d | Inl e \<Rightarrow> [])
     ''atoms'' =
     Some (PList [atom_dict 0 (new_atom ''H'' (0, 0, - 0.5)) 0])"
proof -
  have m: "get_magnetic_moments polarised_monoxide = Inr [1.5, 0.25]"
    by (simp add: get_magnetic_moments_def polarised_monoxide_def)
  have a: "atoms polarised_monoxide = [new_atom ''C'' (0, 0, 0), new_atom ''O'' (0, 0, 1.2)]"
    by (simp add: polarised_monoxide_def carbon_monoxide_def Atoms_def)
  have ch: "calc hydrogen = None" by (simp add: hydrogen_def Atoms_def)
  have ah: "atoms hydrogen = [new_atom ''H'' (0, 0, - 0.5)]"
    by (simp add: hydrogen_def Atoms_def)
  note t = magnetic_moment_fallback [of polarised_monoxide example_library]
  note h = magnetic_moment_fallback [of hydrogen example_library]
  from t m a have 1: "atoms_dict_try example_library polarised_monoxide =
      Inr (atoms_dict_init example_library polarised_monoxide
             [atom_dict 0 (new_atom ''C'' (0, 0, 0)) 1.5,
              atom_dict 1 (new_atom ''O'' (0, 0, 1.2)) 0.25])"
    by simp
  from h ch have r: "get_magnetic_moments hydrogen = Inl RuntimeError"
    by (elim conjE) simp
  with h ah have 2: "atoms_dict_try example_library hydrogen =
      Inr (atoms_dict_init example_library hydrogen
             [atom_dict 0 (new_atom ''H'' (0, 0, - 0.5)) 0])"
    by (simp add: new_atom_def)
  from m a ch r show ?thesis
    by (simp add: 1 2 atoms_dict_init_def new_atom_def)
qed

text \<open>A structure without atoms whose calculator, if it has one, holds no forces is
  encoded, with \<^verbatim>\<open>natoms\<close> zero and no chemical symbol, whenever the collaborators
  return.\<close>

lemma empty_structure_encodes:
  assumes e: "atoms s = []"
    and ok: "calc s = None \<or> (\<exists>c. calc s = Some c \<and> calculation_required c [''forces''])"
    and mm: "\<forall>x. get_magnetic_moments s = Inl x \<longrightarrow> isinstance_RuntimeError x"
    and cd: "make_calculator_dict L s = Inr cd"
    and sp: "get_scaled_positions L (geometry s) = Inr sp"
    and g: "get_spacegroup L (transpose3 (cell s), sp, get_atomic_numbers L (atoms s)) = Inr g"
    and kw: "''atoms'' \<notin> set (keys kwargs)"
  shows "\<exists>doc w' ad. make_doc_from_atoms L w s kwargs = Inr (doc, w') \<and>
           map_of doc ''atoms'' = Some (PDict ad) \<and>
           map_of ad ''natoms'' = Some (PInt 0) \<and>
           map_of ad ''chemical_symbols'' = Some (PList [])"
proof -
  have "\<exists>d0. atoms_dict_try L s = Inr d0"
    unfolding atoms_dict_try_def atom_dicts_computed_def
    using mm by (cases "get_magnetic_moments s") (simp_all add: e)
  then obtain d0 where t: "atoms_dict_try L s = Inr d0" ..
  from atoms_dict_try_shape [OF t] t obtain ads
    where t': "atoms_dict_try L s = Inr (atoms_dict_init L s ads)" by auto
  note ad = make_atoms_dict_eq [OF t' sp g]
  have "\<exists>rd. snd (make_results_dict L s) = Inr rd"
  proof (cases "calc s")
    case None
    then show ?thesis by (simp add: make_results_dict_None)
  next
    case (Some c)
    with ok have rf: "calculation_required c [''forces'']" by simp
    show ?thesis
    proof (cases "calculation_required c [''energy'']")
      case True
      from make_results_dict_neither [OF Some True rf] show ?thesis by simp
    next
      case False
      with cached_energy obtain x where "calc_get_potential_energy c = Inr x" by blast
      from make_results_dict_energy [OF Some False this rf] show ?thesis by simp
    qed
  qed
  then obtain rd where rd: "snd (make_results_dict L s) = Inr rd" ..
  note d = make_doc_from_atoms_success [OF ad cd rd, of w kwargs]
  let ?ad = "atoms_dict_init L s ads @
       [(''natoms'', PInt (int (length (atoms s)))),
        (''mass'', PFloat (sum_list (get_masses L (atoms s)))),
        (''spacegroup'', g),
        (''chemical_symbols'', PList (map PStr (remdups (map symbol (atoms s))))),
        (''symbol_counts'',
         PDict (map (\<lambda>sym. (sym, PInt (int (count_list (map symbol (atoms s)) sym))))
                  (remdups (map symbol (atoms s)))))] @
       (if 0 < linalg_det L (cell s) then [(''volume'', PFloat (get_volume L (cell s)))]
        else [])"
  have 1: "map_of ?ad ''natoms'' = Some (PInt 0)"
    by (simp add: atoms_dict_init_def e)
  have 2: "map_of ?ad ''chemical_symbols'' = Some (PList [])"
    by (simp add: atoms_dict_init_def e)
  have 3: "map_of (dict_update
                   [(''atoms'', PDict ?ad), (''calc'', PDict cd), (''results'', PDict rd),
                    (''user'', getenv_USER w), (''ctime'', PDatetime (clock w (ticks w))),
                    (''mtime'', PDatetime (clock w (ticks w + 1)))] kwargs) ''atoms'' =
           Some (PDict ?ad)"
    using kw by (subst map_of_dict_update_other) simp_all
  from d 1 2 3 show ?thesis by (intro exI conjI)
qed

text \<open>
  C5: the claim says that encoding succeeds for every structure without atoms. The
  empty structure that carries a single-point calculator holding an empty array of
  forces, which is what the decoder returns for a document with no atoms and
  \<^verbatim>\<open>results: {'forces': []}\<close>, makes \<^verbatim>\<open>_make_results_dict\<close> take
  \<^verbatim>\<open>max\<close> of an empty sequence: the encoder raises, for every library, and ValueError
  when the rest of the encoding returns.
\<close>

theorem empty_structure_with_forces_raises:
  "atoms no_atoms_with_forces = [] \<and>
   snd (make_results_dict L no_atoms_with_forces) = Inl ValueError \<and>
   (\<exists>e. make_doc_from_atoms L w no_atoms_with_forces kwargs = Inl e) \<and>
   make_doc_from_atoms example_library w no_atoms_with_forces kwargs = Inl ValueError"
proof -
  have c: "calc no_atoms_with_forces = Some (SinglePointCalculator None (Some []) None)"
    by (simp add: no_atoms_with_forces_def)
  have cf: "constrained_forces L no_atoms_with_forces [] = []"
    by (simp add: constrained_forces_def no_atoms_with_forces_def Atoms_def)
  have r: "snd (make_results_dict L no_atoms_with_forces) = Inl ValueError" for L
    by (subst make_results_dict_forces [OF c, of "[]"])
       (simp_all add: flatten_def constrained_forces_def no_atoms_with_forces_def Atoms_def)
  have e: "\<exists>e. make_doc_from_atoms L w no_atoms_with_forces kwargs = Inl e"
    unfolding make_doc_from_atoms_def
    by (cases "make_atoms_dict L no_atoms_with_forces";
        cases "make_calculator_dict L no_atoms_with_forces") (simp_all add: r)
  have t: "atoms_dict_try example_library no_atoms_with_forces =
             Inr (atoms_dict_init example_library no_atoms_with_forces [])"
    by (simp add: atoms_dict_try_def get_magnetic_moments_def c atom_dicts_static_def
        no_atoms_with_forces_def Atoms_def)
  have "det3 (cell no_atoms_with_forces) \<noteq> 0 \<or> has_zero_vector (cell no_atoms_with_forces)"
    by (simp add: no_atoms_with_forces_def Atoms_def has_zero_vector_def)
  from example_library_returns [OF this] obtain sp g
    where "get_scaled_positions example_library (geometry no_atoms_with_forces) = Inr sp"
      "get_spacegroup example_library
         (transpose3 (cell no_atoms_with_forces), sp,
          get_atomic_numbers example_library (atoms no_atoms_with_forces)) = Inr g"
    by (elim exE conjE)
  from make_atoms_dict_eq [OF t this]
  obtain ad where ad: "make_atoms_dict example_library no_atoms_with_forces = Inr ad"
    by simp
  have cd: "\<exists>cd. make_calculator_dict example_library no_atoms_with_forces = Inr cd"
    by (simp add: make_calculator_dict_def c calc_todict_def)
  then obtain cd where cd: "make_calculator_dict example_library no_atoms_with_forces = Inr cd" ..
  have x: "make_doc_from_atoms example_library w no_atoms_with_forces kwargs = Inl ValueError"
    unfolding make_doc_from_atoms_def by (simp add: ad cd r)
  have "atoms no_atoms_with_forces = []"
    by (simp add: no_atoms_with_forces_def Atoms_def)
  with r e x show ?thesis by (intro conjI)
qed

end
